theory Spec2Isabelle
  imports Main "HOL-Library.Word"
begin

section \<open>Python values, strings and exceptions\<close>

text \<open>
  A Python \<open>str\<close> is a sequence of Unicode code points; a \<open>bytes\<close> object is a
  sequence of octets. String literals of the source are all ASCII and are written
  \<open>u ''...''\<close>.
\<close>

type_synonym pystr = "nat list"
type_synonym byte = "8 word"

definition u :: "string \<Rightarrow> pystr" where
  "u s = map of_char s"

text \<open>
  The values the caller can pass to \<open>parse_document\<close>: the function is called with
  an arbitrary object and tests \<open>isinstance(filepath, str)\<close> itself.
\<close>

datatype pyval =
    PyNone
  | PyBool bool
  | PyInt int
  | PyBytes "byte list"
  | PyStr pystr
  | PyList "pyval list"

text \<open>
  The exception classes the handlers of the source name, with Python's class
  hierarchy between them. \<open>OSError\<close> (whose alias is \<open>IOError\<close>) stands for itself and
  for its subclasses other than \<open>FileNotFoundError\<close> (\<open>PermissionError\<close>,
  \<open>IsADirectoryError\<close>, ...); \<open>Exception\<close> for any other subclass of \<open>Exception\<close>;
  \<open>BaseException\<close> for the classes that are not below \<open>Exception\<close>
  (\<open>KeyboardInterrupt\<close>, \<open>SystemExit\<close>, \<open>GeneratorExit\<close>).
\<close>

datatype exc_class =
    FileNotFoundError
  | OSError
  | UnicodeDecodeError
  | JSONDecodeError
  | ValueError
  | KeyError
  | ImportError
  | MemoryError
  | CsvError
  | ParseError
  | PdfReadError
  | Exception
  | BaseException

text \<open>An exception object: its class and \<open>str(e)\<close>.\<close>

datatype exn = Exn (exn_class: exc_class) (exn_str: pystr)

fun issubclass :: "exc_class \<Rightarrow> exc_class \<Rightarrow> bool" where
  "issubclass c BaseException = True"
| "issubclass c Exception = (c \<noteq> BaseException)"
| "issubclass c OSError = (c = OSError \<or> c = FileNotFoundError)"
| "issubclass c ValueError = (c = ValueError \<or> c = UnicodeDecodeError \<or> c = JSONDecodeError)"
| "issubclass c d = (c = d)"

definition isinstance :: "exn \<Rightarrow> exc_class \<Rightarrow> bool" where
  "isinstance e c = issubclass (exn_class e) c"

subsection \<open>String methods\<close>

text \<open>The small letter of an ASCII code point: what \<open>str.lower\<close> does within ASCII.\<close>

definition chr_lower :: "nat \<Rightarrow> nat" where
  "chr_lower c = (if 65 \<le> c \<and> c \<le> 90 then c + 32 else c)"

text \<open>\<open>str.isspace\<close> of one code point: the white space \<open>str.strip()\<close> removes.\<close>

definition isspace :: "nat \<Rightarrow> bool" where
  "isspace c =
     ((9 \<le> c \<and> c \<le> 13) \<or> (28 \<le> c \<and> c \<le> 32) \<or> c = 0x85 \<or> c = 0xA0 \<or> c = 0x1680
      \<or> (0x2000 \<le> c \<and> c \<le> 0x200A) \<or> c = 0x2028 \<or> c = 0x2029 \<or> c = 0x202F
      \<or> c = 0x205F \<or> c = 0x3000)"

definition str_strip :: "pystr \<Rightarrow> pystr" where
  "str_strip s = rev (dropWhile isspace (rev (dropWhile isspace s)))"

text \<open>\<open>sep.join(parts)\<close>.\<close>

fun str_join :: "pystr \<Rightarrow> pystr list \<Rightarrow> pystr" where
  "str_join sep [] = []"
| "str_join sep [x] = x"
| "str_join sep (x # y # ys) = x @ sep @ str_join sep (y # ys)"

definition str_endswith :: "pystr \<Rightarrow> pystr \<Rightarrow> bool" where
  "str_endswith s suffix = (length suffix \<le> length s \<and> drop (length s - length suffix) s = suffix)"

text \<open>\<open>str(n)\<close> of a non-negative integer, as the f-strings format it.\<close>

fun str_nat :: "nat \<Rightarrow> pystr" where
  "str_nat n = (if n < 10 then [48 + n] else str_nat (n div 10) @ [48 + n mod 10])"

declare str_nat.simps [simp del]

subsection \<open>Paths\<close>

text \<open>
  \<open>os.path.basename\<close> and \<open>os.path.splitext\<close> of \<open>posixpath\<close>: the separator is
  \<open>/\<close> (47), the extension separator \<open>.\<close> (46). \<open>splitext\<close> splits at the last dot of
  the last component, unless that component consists of leading dots up to there.
\<close>

fun rfind_from :: "nat \<Rightarrow> pystr \<Rightarrow> nat \<Rightarrow> int \<Rightarrow> int" where
  "rfind_from c [] i found = found"
| "rfind_from c (x # xs) i found = rfind_from c xs (i + 1) (if x = c then int i else found)"

text \<open>\<open>s.rfind(c)\<close>: the highest index of \<open>c\<close> in \<open>s\<close>, or \<open>-1\<close>.\<close>

definition rfind :: "nat \<Rightarrow> pystr \<Rightarrow> int" where
  "rfind c s = rfind_from c s 0 (-1)"

definition basename :: "pystr \<Rightarrow> pystr" where
  "basename p = drop (nat (rfind 47 p + 1)) p"

definition splitext :: "pystr \<Rightarrow> pystr \<times> pystr" where
  "splitext p =
     (let sepIndex = rfind 47 p; dotIndex = rfind 46 p
      in if dotIndex > sepIndex \<and>
            list_ex (\<lambda>c. c \<noteq> 46)
              (take (nat dotIndex - nat (sepIndex + 1)) (drop (nat (sepIndex + 1)) p))
         then (take (nat dotIndex) p, drop (nat dotIndex) p)
         else (p, []))"

section \<open>The runtime the script calls\<close>

subsection \<open>The \<open>utf-8\<close> codec and text-mode reading\<close>

text \<open>
  \<open>open(..., encoding='utf-8')\<close> decodes with the error handler \<open>strict\<close> unless
  \<open>errors\<close> is given; \<open>parse_txt\<close> passes \<open>errors='ignore'\<close> on its second attempt.
  \<open>utf8_next\<close> reads one code point off the front of the input: the code point (or
  \<open>None\<close> for an ill-formed sequence) and the number of octets it covers. An
  ill-formed sequence covers the octets that were well-formed so far (at least the
  first), which is the range the decoder reports to the error handler.
\<close>

datatype errors = Strict | Ignore

definition is_continuation_byte :: "byte \<Rightarrow> bool" where
  "is_continuation_byte b = (0x80 \<le> b \<and> b < 0xC0)"

fun utf8_next :: "byte list \<Rightarrow> nat option \<times> nat" where
  "utf8_next [] = (None, 0)"
| "utf8_next (b1 # bs) =
     (if b1 < 0x80 then (Some (unat b1), 1)
      else if b1 < 0xC2 then (None, 1)
      else if b1 < 0xE0 then
        (case bs of
           [] \<Rightarrow> (None, 1)
         | b2 # _ \<Rightarrow>
             if is_continuation_byte b2
             then (Some ((unat b1 - 0xC0) * 64 + (unat b2 - 0x80)), 2)
             else (None, 1))
      else if b1 < 0xF0 then
        (case bs of
           [] \<Rightarrow> (None, 1)
         | b2 # bs2 \<Rightarrow>
             if \<not> is_continuation_byte b2 \<or> (if b2 < 0xA0 then b1 = 0xE0 else b1 = 0xED)
             then (None, 1)
             else (case bs2 of
                     [] \<Rightarrow> (None, 2)
                   | b3 # _ \<Rightarrow>
                       if is_continuation_byte b3
                       then (Some ((unat b1 - 0xE0) * 4096 + (unat b2 - 0x80) * 64
                                   + (unat b3 - 0x80)), 3)
                       else (None, 2)))
      else if b1 < 0xF5 then
        (case bs of
           [] \<Rightarrow> (None, 1)
         | b2 # bs2 \<Rightarrow>
             if \<not> is_continuation_byte b2 \<or> (if b2 < 0x90 then b1 = 0xF0 else b1 = 0xF4)
             then (None, 1)
             else (case bs2 of
                     [] \<Rightarrow> (None, 2)
                   | b3 # bs3 \<Rightarrow>
                       if \<not> is_continuation_byte b3 then (None, 2)
                       else (case bs3 of
                               [] \<Rightarrow> (None, 3)
                             | b4 # _ \<Rightarrow>
                                 if is_continuation_byte b4
                                 then (Some ((unat b1 - 0xF0) * 262144
                                             + (unat b2 - 0x80) * 4096
                                             + (unat b3 - 0x80) * 64 + (unat b4 - 0x80)), 4)
                                 else (None, 3))))
      else (None, 1))"

lemma utf8_next_pos: "0 < snd (utf8_next (b # bs))"
  by (simp split: list.split)

text \<open>
  The whole input: \<open>None\<close> is the \<open>UnicodeDecodeError\<close> of the handler \<open>strict\<close>;
  the handler \<open>ignore\<close> skips the reported octets and goes on.
\<close>

function utf8_decode :: "errors \<Rightarrow> byte list \<Rightarrow> pystr option" where
  "utf8_decode errs [] = Some []"
| "utf8_decode errs (b # bs) =
     (case utf8_next (b # bs) of
        (Some c, n) \<Rightarrow> map_option ((#) c) (utf8_decode errs (drop n (b # bs)))
      | (None, n) \<Rightarrow>
          (case errs of
             Strict \<Rightarrow> None
           | Ignore \<Rightarrow> utf8_decode errs (drop n (b # bs))))"
  by pat_completeness auto
termination
proof (relation "measure (\<lambda>(errs, bs). length bs)")
  show "wf (measure (\<lambda>(errs, bs). length bs))" by simp
next
  fix errs :: errors and b :: byte and bs x1 n x2a
  assume "(x1, n) = utf8_next (b # bs)"
  then have "0 < n" using utf8_next_pos [of b bs] by (metis snd_conv)
  then show "((errs, drop n (b # bs)), (errs, b # bs)) \<in> measure (\<lambda>(errs, bs). length bs)"
    by simp
next
  fix errs :: errors and b :: byte and bs x1 n
  assume "(x1, n) = utf8_next (b # bs)"
  then have "0 < n" using utf8_next_pos [of b bs] by (metis snd_conv)
  then show "((errs, drop n (b # bs)), (errs, b # bs)) \<in> measure (\<lambda>(errs, bs). length bs)"
    by simp
qed

text \<open>
  Universal newlines: a file opened in text mode without \<open>newline=''\<close> hands out
  \<open>\r\n\<close> and \<open>\r\<close> as \<open>\n\<close>.
\<close>

fun translate_newlines :: "pystr \<Rightarrow> pystr" where
  "translate_newlines [] = []"
| "translate_newlines (c # cs) =
     (if c = 13 then
        (case cs of
           [] \<Rightarrow> [10]
         | d # ds \<Rightarrow> if d = 10 then 10 # translate_newlines ds else 10 # translate_newlines cs)
      else c # translate_newlines cs)"

text \<open>\<open>sys.getdefaultencoding()\<close> is \<open>'utf-8'\<close> on every Python 3.\<close>

datatype encoding = UTF_8

definition sys_getdefaultencoding :: encoding where
  "sys_getdefaultencoding = UTF_8"

fun decode :: "encoding \<Rightarrow> errors \<Rightarrow> byte list \<Rightarrow> pystr option" where
  "decode UTF_8 errs bs = utf8_decode errs bs"

subsection \<open>Results, diagnostics and the environment\<close>

text \<open>
  What a successful call hands back: a \<open>str\<close> (\<open>Text\<close>), a list of lists of \<open>str\<close>
  (\<open>Table\<close>), the object \<open>json.load\<close> built (\<open>StructuredValue\<close>), or the dictionary
  of sheets \<open>pandas.read_excel\<close> built (\<open>SheetSet\<close>). A failed call hands back Python's
  \<open>None\<close>: the functions below return \<open>content option\<close>.
\<close>

datatype json =
    JNull
  | JBool bool
  | JInt int
  | JFloat pystr
  | JStr pystr
  | JList "json list"
  | JDict "(pystr \<times> json) list"

typedecl dataframe

datatype content =
    Text pystr
  | Table "pystr list list"
  | StructuredValue json
  | SheetSet "(pystr \<times> dataframe) list"

text \<open>
  What a call does besides returning: the records it hands to \<open>logging\<close>, and its
  accesses to the file system, in the order they happen.
\<close>

datatype level = INFO | WARNING | ERROR

datatype effect =
    Log level pystr
  | Exists pystr
  | IsFile pystr
  | Open pystr

datatype 'a outcome = Return 'a | Raise exn

text \<open>An \<open>xml.etree.ElementTree\<close> element.\<close>

datatype element =
  Element (elem_tag: pystr) (elem_attrib: "(pystr \<times> pystr) list")
    (elem_text: "pystr option") (elem_tail: "pystr option") (elem_children: "element list")

text \<open>
  What iterating a \<open>csv.reader\<close> yields: a row, or an exception together with the
  reader's \<open>line_num\<close> at that moment (the iteration ends there).
\<close>

datatype csv_item = Row "pystr list" | CsvRaise exn nat

datatype engine = Openpyxl | Xlrd

text \<open>
  The environment of a call: the four flags the import section sets, the file system
  (\<open>os.path.exists\<close>, \<open>os.path.isfile\<close>, and what opening a path gives: its octets or
  the exception \<open>open\<close> raises), and the libraries. Each library is the function from its
  input to what it returns or raises (\<open>unicode_lower\<close> is described below);
  \<open>PdfReader\<close> gives, per page, the text
  \<open>extract_text\<close> returns or the exception that fetching the page or extracting raises;
  \<open>codec_error_str\<close> is \<open>str(e)\<close> of the \<open>UnicodeDecodeError\<close> the codec raises on
  the octets. The file system does not change during a call. The warnings of the import
  section are logged when the module is loaded, before any call, and are not part of a
  call's trace.
\<close>

record env =
  HAS_PYPDF2 :: bool
  HAS_DOCX :: bool
  HAS_PANDAS :: bool
  HAS_BS4 :: bool
  path_exists :: "pystr \<Rightarrow> bool"
  path_isfile :: "pystr \<Rightarrow> bool"
  open_file :: "pystr \<Rightarrow> exn + byte list"
  codec_error_str :: "byte list \<Rightarrow> pystr"
  csv_reader :: "pystr \<Rightarrow> csv_item list"
  json_loads :: "pystr \<Rightarrow> exn + json"
  XMLParser :: "byte list \<Rightarrow> exn + element"
  PdfReader :: "byte list \<Rightarrow> exn + (exn + pystr) list"
  docx_Document :: "byte list \<Rightarrow> exn + pystr list"
  read_excel :: "engine \<Rightarrow> byte list \<Rightarrow> exn + (pystr \<times> dataframe) list"
  bs4_get_text :: "pystr \<Rightarrow> exn + pystr"
  unicode_lower :: "pystr \<Rightarrow> pystr"

text \<open>
  \<open>s.lower()\<close>. On a string of ASCII code points it turns the capital letters into the
  small ones and leaves the rest. On a string that has a code point beyond ASCII the
  result comes from the Unicode database of the runtime, whose case mappings can depend
  on the context and change the length: it is \<open>unicode_lower\<close> of the environment.
\<close>

definition str_lower :: "env \<Rightarrow> pystr \<Rightarrow> pystr" where
  "str_lower env s = (if list_all (\<lambda>c. c < 128) s then map chr_lower s else unicode_lower env s)"

text \<open>
  \<open>with open(filepath, 'r', encoding=..., errors=..., newline=...) as f\<close> followed by
  reading all of \<open>f\<close>: the effects, and the text or the exception raised.
\<close>

definition read_text ::
  "env \<Rightarrow> pystr \<Rightarrow> encoding \<Rightarrow> errors \<Rightarrow> bool \<Rightarrow> effect list \<times> (exn + pystr)" where
  "read_text env filepath enc errs universal =
     (case open_file env filepath of
        Inl e \<Rightarrow> ([Open filepath], Inl e)
      | Inr bs \<Rightarrow>
          (case decode enc errs bs of
             None \<Rightarrow> ([Open filepath], Inl (Exn UnicodeDecodeError (codec_error_str env bs)))
           | Some s \<Rightarrow> ([Open filepath], Inr (if universal then translate_newlines s else s))))"

section \<open>The parsing functions\<close>

subsection \<open>\<open>parse_txt\<close>\<close>

definition parse_txt_try :: "env \<Rightarrow> pystr \<Rightarrow> effect list \<times> (exn + pystr)" where
  "parse_txt_try env filepath =
     (case read_text env filepath UTF_8 Strict True of
        (t1, Inr content) \<Rightarrow>
          (t1 @ [Log INFO (u ''Successfully parsed TXT: '' @ basename filepath)], Inr content)
      | (t1, Inl e) \<Rightarrow>
          if isinstance e UnicodeDecodeError then
            (case read_text env filepath sys_getdefaultencoding Ignore True of
               (t2, Inr content) \<Rightarrow>
                 (t1 @ [Log WARNING (u ''UTF-8 decoding failed for '' @ filepath
                                      @ u ''. Trying system default encoding.'')]
                  @ t2 @ [Log INFO (u ''Successfully parsed TXT: '' @ basename filepath)],
                  Inr content)
             | (t2, Inl e2) \<Rightarrow>
                 (t1 @ [Log WARNING (u ''UTF-8 decoding failed for '' @ filepath
                                      @ u ''. Trying system default encoding.'')] @ t2,
                  Inl e2))
          else (t1, Inl e))"

definition parse_txt :: "env \<Rightarrow> pystr \<Rightarrow> effect list \<times> content option outcome" where
  "parse_txt env filepath =
     (case parse_txt_try env filepath of
        (t, Inr content) \<Rightarrow> (t, Return (Some (Text content)))
      | (t, Inl e) \<Rightarrow>
          if isinstance e FileNotFoundError then
            (t @ [Log ERROR (u ''File not found: '' @ filepath)], Return None)
          else if isinstance e OSError then
            (t @ [Log ERROR (u ''IOError reading TXT file '' @ filepath @ u '': '' @ exn_str e)],
             Return None)
          else if isinstance e Exception then
            (t @ [Log ERROR (u ''Unexpected error parsing TXT file '' @ filepath @ u '': ''
                             @ exn_str e)],
             Return None)
          else (t, Raise e))"

subsection \<open>\<open>parse_csv\<close>\<close>

text \<open>
  The loop \<open>for row in reader: rows.append(row)\<close>. The file is opened with
  \<open>newline=''\<close> and decoded as \<open>utf-8\<close>, \<open>strict\<close>; the reader pulls the text through
  the file object, so an undecodable file raises \<open>UnicodeDecodeError\<close> out of the loop.
  The model decodes the file as a whole before the reader runs. (On a file longer than
  one buffer the reader could raise \<open>csv.Error\<close> on an early part before the
  undecodable part is read; the call logs a different error then and returns \<open>None\<close>
  all the same.)
\<close>

fun csv_loop :: "csv_item list \<Rightarrow> pystr list list \<Rightarrow> (exn \<times> nat) + pystr list list" where
  "csv_loop [] rows = Inr rows"
| "csv_loop (Row row # items) rows = csv_loop items (rows @ [row])"
| "csv_loop (CsvRaise e line_num # items) rows = Inl (e, line_num)"

definition parse_csv_try :: "env \<Rightarrow> pystr \<Rightarrow> effect list \<times> ((exn \<times> nat) + pystr list list)" where
  "parse_csv_try env filepath =
     (case read_text env filepath UTF_8 Strict False of
        (t, Inl e) \<Rightarrow> (t, Inl (e, 0))
      | (t, Inr txt) \<Rightarrow>
          (case csv_loop (csv_reader env txt) [] of
             Inl el \<Rightarrow> (t, Inl el)
           | Inr rows \<Rightarrow>
               (t @ [Log INFO (u ''Successfully parsed CSV: '' @ basename filepath @ u '' (''
                               @ str_nat (length rows) @ u '' rows)'')],
                Inr rows)))"

definition parse_csv :: "env \<Rightarrow> pystr \<Rightarrow> effect list \<times> content option outcome" where
  "parse_csv env filepath =
     (case parse_csv_try env filepath of
        (t, Inr rows) \<Rightarrow> (t, Return (Some (Table rows)))
      | (t, Inl (e, line_num)) \<Rightarrow>
          if isinstance e FileNotFoundError then
            (t @ [Log ERROR (u ''File not found: '' @ filepath)], Return None)
          else if isinstance e CsvError then
            (t @ [Log ERROR (u ''CSV parsing error in file '' @ filepath @ u '', line ''
                             @ str_nat line_num @ u '': '' @ exn_str e)],
             Return None)
          else if isinstance e OSError then
            (t @ [Log ERROR (u ''IOError reading CSV file '' @ filepath @ u '': '' @ exn_str e)],
             Return None)
          else if isinstance e Exception then
            (t @ [Log ERROR (u ''Unexpected error parsing CSV file '' @ filepath @ u '': ''
                             @ exn_str e)],
             Return None)
          else (t, Raise e))"

subsection \<open>\<open>parse_json\<close>\<close>

definition parse_json_try :: "env \<Rightarrow> pystr \<Rightarrow> effect list \<times> (exn + json)" where
  "parse_json_try env filepath =
     (case read_text env filepath UTF_8 Strict True of
        (t, Inl e) \<Rightarrow> (t, Inl e)
      | (t, Inr txt) \<Rightarrow>
          (case json_loads env txt of
             Inl e \<Rightarrow> (t, Inl e)
           | Inr data \<Rightarrow>
               (t @ [Log INFO (u ''Successfully parsed JSON: '' @ basename filepath)], Inr data)))"

text \<open>\<open>return data\<close>: the JSON document \<open>null\<close> is loaded as Python's \<open>None\<close>.\<close>

definition parse_json :: "env \<Rightarrow> pystr \<Rightarrow> effect list \<times> content option outcome" where
  "parse_json env filepath =
     (case parse_json_try env filepath of
        (t, Inr data) \<Rightarrow>
          (t, Return (case data of JNull \<Rightarrow> None | _ \<Rightarrow> Some (StructuredValue data)))
      | (t, Inl e) \<Rightarrow>
          if isinstance e FileNotFoundError then
            (t @ [Log ERROR (u ''File not found: '' @ filepath)], Return None)
          else if isinstance e JSONDecodeError then
            (t @ [Log ERROR (u ''Invalid JSON format in '' @ filepath @ u '': '' @ exn_str e)],
             Return None)
          else if isinstance e OSError then
            (t @ [Log ERROR (u ''IOError reading JSON file '' @ filepath @ u '': '' @ exn_str e)],
             Return None)
          else if isinstance e Exception then
            (t @ [Log ERROR (u ''Unexpected error parsing JSON file '' @ filepath @ u '': ''
                             @ exn_str e)],
             Return None)
          else (t, Raise e))"

subsection \<open>\<open>parse_xml\<close>\<close>

text \<open>\<open>root.iter()\<close>: the element and its descendants, in document order.\<close>

fun iter :: "element \<Rightarrow> element list" where
  "iter (Element tg at tx ta cs) = Element tg at tx ta cs # concat (map iter cs)"

text \<open>\<open>[elem.text for elem in root.iter() if elem.text]\<close>\<close>

definition text_parts :: "element \<Rightarrow> pystr list" where
  "text_parts root =
     concat (map (\<lambda>elem. case elem_text elem of None \<Rightarrow> [] | Some s \<Rightarrow> if s \<noteq> [] then [s] else [])
               (iter root))"

text \<open>\<open>' '.join(part.strip() for part in text_parts if part.strip())\<close>\<close>

definition xml_text_content :: "element \<Rightarrow> pystr" where
  "xml_text_content root =
     str_join (u '' '') (map str_strip (filter (\<lambda>part. str_strip part \<noteq> []) (text_parts root)))"

definition parse_xml_try :: "env \<Rightarrow> pystr \<Rightarrow> effect list \<times> (exn + pystr)" where
  "parse_xml_try env filepath =
     (case open_file env filepath of
        Inl e \<Rightarrow> ([Open filepath], Inl e)
      | Inr bs \<Rightarrow>
          (case XMLParser env bs of
             Inl e \<Rightarrow> ([Open filepath], Inl e)
           | Inr root \<Rightarrow>
               ([Open filepath,
                 Log INFO (u ''Successfully parsed XML and extracted text: '' @ basename filepath)],
                Inr (xml_text_content root))))"

definition parse_xml :: "env \<Rightarrow> pystr \<Rightarrow> effect list \<times> content option outcome" where
  "parse_xml env filepath =
     (case parse_xml_try env filepath of
        (t, Inr s) \<Rightarrow> (t, Return (Some (Text s)))
      | (t, Inl e) \<Rightarrow>
          if isinstance e FileNotFoundError then
            (t @ [Log ERROR (u ''File not found: '' @ filepath)], Return None)
          else if isinstance e ParseError then
            (t @ [Log ERROR (u ''XML parsing error in '' @ filepath @ u '': '' @ exn_str e)],
             Return None)
          else if isinstance e OSError then
            (t @ [Log ERROR (u ''IOError reading XML file '' @ filepath @ u '': '' @ exn_str e)],
             Return None)
          else if isinstance e Exception then
            (t @ [Log ERROR (u ''Unexpected error processing XML file '' @ filepath @ u '': ''
                             @ exn_str e)],
             Return None)
          else (t, Raise e))"

subsection \<open>\<open>parse_pdf\<close>\<close>

text \<open>
  The loop over \<open>range(num_pages)\<close>, with its own \<open>try\<close>: a page that raises an
  \<open>Exception\<close> is logged as a warning and skipped; a page whose text is empty adds
  nothing; any other page adds its text and a newline.
\<close>

fun extract_pages ::
  "pystr \<Rightarrow> nat \<Rightarrow> (exn + pystr) list \<Rightarrow> pystr \<Rightarrow> effect list \<times> (exn + pystr)" where
  "extract_pages filepath page_num [] text_content = ([], Inr text_content)"
| "extract_pages filepath page_num (page # pages) text_content =
     (case page of
        Inr page_text \<Rightarrow>
          extract_pages filepath (page_num + 1) pages
            (if page_text \<noteq> [] then text_content @ page_text @ [10] else text_content)
      | Inl page_error \<Rightarrow>
          if isinstance page_error Exception then
            (case extract_pages filepath (page_num + 1) pages text_content of
               (t, r) \<Rightarrow>
                 (Log WARNING (u ''Could not extract text from page '' @ str_nat (page_num + 1)
                               @ u '' in '' @ filepath @ u '': '' @ exn_str page_error) # t,
                  r))
          else ([], Inl page_error))"

definition parse_pdf_try :: "env \<Rightarrow> pystr \<Rightarrow> effect list \<times> (exn + pystr)" where
  "parse_pdf_try env filepath =
     (case open_file env filepath of
        Inl e \<Rightarrow> ([Open filepath], Inl e)
      | Inr bs \<Rightarrow>
          (case PdfReader env bs of
             Inl e \<Rightarrow> ([Open filepath], Inl e)
           | Inr pages \<Rightarrow>
               (case extract_pages filepath 0 pages [] of
                  (t, Inl e) \<Rightarrow>
                    ([Open filepath,
                      Log INFO (u ''Reading '' @ str_nat (length pages) @ u '' pages from PDF: ''
                                @ basename filepath @ u ''...'')] @ t,
                     Inl e)
                | (t, Inr text_content) \<Rightarrow>
                    ([Open filepath,
                      Log INFO (u ''Reading '' @ str_nat (length pages) @ u '' pages from PDF: ''
                                @ basename filepath @ u ''...'')] @ t
                     @ [Log INFO (u ''Finished extracting text from PDF: '' @ basename filepath)],
                     Inr (str_strip text_content)))))"

definition parse_pdf :: "env \<Rightarrow> pystr \<Rightarrow> effect list \<times> content option outcome" where
  "parse_pdf env filepath =
     (if \<not> HAS_PYPDF2 env then
        ([Log ERROR (u ''PyPDF2 library is required for PDF parsing but not found.'')],
         Return None)
      else
        (case parse_pdf_try env filepath of
           (t, Inr s) \<Rightarrow> (t, Return (Some (Text s)))
         | (t, Inl e) \<Rightarrow>
             if isinstance e FileNotFoundError then
               (t @ [Log ERROR (u ''File not found: '' @ filepath)], Return None)
             else if isinstance e PdfReadError then
               (t @ [Log ERROR (u ''PyPDF2 error reading PDF '' @ filepath @ u '': ''
                                @ exn_str e)],
                Return None)
             else if isinstance e OSError then
               (t @ [Log ERROR (u ''IOError reading PDF file '' @ filepath @ u '': ''
                                @ exn_str e)],
                Return None)
             else if isinstance e Exception then
               (t @ [Log ERROR (u ''Unexpected error parsing PDF file '' @ filepath @ u '': ''
                                @ exn_str e)],
                Return None)
             else (t, Raise e)))"

subsection \<open>\<open>parse_docx\<close>\<close>

definition parse_docx_try :: "env \<Rightarrow> pystr \<Rightarrow> effect list \<times> (exn + pystr)" where
  "parse_docx_try env filepath =
     (case open_file env filepath of
        Inl e \<Rightarrow> ([Open filepath], Inl e)
      | Inr bs \<Rightarrow>
          (case docx_Document env bs of
             Inl e \<Rightarrow> ([Open filepath], Inl e)
           | Inr paragraphs \<Rightarrow>
               ([Open filepath,
                 Log INFO (u ''Successfully parsed DOCX: '' @ basename filepath)],
                Inr (str_join [10] (filter (\<lambda>para_text. para_text \<noteq> []) paragraphs)))))"

definition parse_docx :: "env \<Rightarrow> pystr \<Rightarrow> effect list \<times> content option outcome" where
  "parse_docx env filepath =
     (if \<not> HAS_DOCX env then
        ([Log ERROR (u ''python-docx library is required for DOCX parsing but not found.'')],
         Return None)
      else
        (case parse_docx_try env filepath of
           (t, Inr s) \<Rightarrow> (t, Return (Some (Text s)))
         | (t, Inl e) \<Rightarrow>
             if isinstance e FileNotFoundError then
               (t @ [Log ERROR (u ''File not found: '' @ filepath)], Return None)
             else if isinstance e Exception then
               (t @ [Log ERROR (u ''Error parsing DOCX file '' @ filepath @ u '': ''
                                @ exn_str e)],
                Return None)
             else (t, Raise e)))"

subsection \<open>\<open>parse_excel\<close>\<close>

definition parse_excel_try ::
  "env \<Rightarrow> pystr \<Rightarrow> effect list \<times> (exn + (pystr \<times> dataframe) list)" where
  "parse_excel_try env filepath =
     (let engine = (if str_endswith (str_lower env filepath) (u ''.xlsx'') then Openpyxl else Xlrd)
      in case open_file env filepath of
           Inl e \<Rightarrow> ([Open filepath], Inl e)
         | Inr bs \<Rightarrow>
             (case read_excel env engine bs of
                Inl e \<Rightarrow> ([Open filepath], Inl e)
              | Inr excel_data \<Rightarrow>
                  ([Open filepath,
                    Log INFO (u ''Successfully parsed Excel: '' @ basename filepath @ u '' (''
                              @ str_nat (length excel_data) @ u '' sheets)'')],
                   Inr excel_data)))"

definition parse_excel :: "env \<Rightarrow> pystr \<Rightarrow> effect list \<times> content option outcome" where
  "parse_excel env filepath =
     (if \<not> HAS_PANDAS env then
        ([Log ERROR
            (u ''pandas, openpyxl, xlrd libraries required for Excel parsing but not found.'')],
         Return None)
      else
        (case parse_excel_try env filepath of
           (t, Inr excel_data) \<Rightarrow> (t, Return (Some (SheetSet excel_data)))
         | (t, Inl e) \<Rightarrow>
             if isinstance e FileNotFoundError then
               (t @ [Log ERROR (u ''File not found: '' @ filepath)], Return None)
             else if isinstance e KeyError \<or> isinstance e ValueError \<or> isinstance e ImportError
             then
               (t @ [Log ERROR (u ''Error parsing Excel file '' @ filepath
                                @ u '' (check file/libraries): '' @ exn_str e)],
                Return None)
             else if isinstance e MemoryError then
               (t @ [Log ERROR (u ''MemoryError parsing Excel file '' @ filepath
                                @ u ''. File may be too large for pandas.'')],
                Return None)
             else if isinstance e Exception then
               (t @ [Log ERROR (u ''Unexpected error parsing Excel file '' @ filepath @ u '': ''
                                @ exn_str e)],
                Return None)
             else (t, Raise e)))"

subsection \<open>\<open>parse_html\<close>\<close>

definition parse_html_try :: "env \<Rightarrow> pystr \<Rightarrow> effect list \<times> (exn + pystr)" where
  "parse_html_try env filepath =
     (case read_text env filepath UTF_8 Strict True of
        (t, Inl e) \<Rightarrow> (t, Inl e)
      | (t, Inr markup) \<Rightarrow>
          (case bs4_get_text env markup of
             Inl e \<Rightarrow> (t, Inl e)
           | Inr txt \<Rightarrow>
               (t @ [Log INFO (u ''Successfully parsed HTML and extracted text: ''
                               @ basename filepath)],
                Inr txt)))"

definition parse_html :: "env \<Rightarrow> pystr \<Rightarrow> effect list \<times> content option outcome" where
  "parse_html env filepath =
     (if \<not> HAS_BS4 env then
        ([Log ERROR
            (u ''beautifulsoup4 and lxml libraries required for HTML parsing but not found.'')],
         Return None)
      else
        (case parse_html_try env filepath of
           (t, Inr s) \<Rightarrow> (t, Return (Some (Text s)))
         | (t, Inl e) \<Rightarrow>
             if isinstance e FileNotFoundError then
               (t @ [Log ERROR (u ''File not found: '' @ filepath)], Return None)
             else if isinstance e OSError then
               (t @ [Log ERROR (u ''IOError reading HTML file '' @ filepath @ u '': ''
                                @ exn_str e)],
                Return None)
             else if isinstance e Exception then
               (t @ [Log ERROR (u ''Error parsing HTML file '' @ filepath @ u '': ''
                                @ exn_str e)],
                Return None)
             else (t, Raise e)))"

section \<open>The dispatcher\<close>

text \<open>The \<open>if\<close>/\<open>elif\<close> chain on the lower-cased extension.\<close>

definition dispatch :: "env \<Rightarrow> pystr \<Rightarrow> pystr \<Rightarrow> effect list \<times> content option outcome" where
  "dispatch env extension filepath =
     (if extension = u ''.txt'' then parse_txt env filepath
      else if extension = u ''.csv'' then parse_csv env filepath
      else if extension = u ''.json'' then parse_json env filepath
      else if extension = u ''.xml'' then parse_xml env filepath
      else if extension = u ''.pdf'' then parse_pdf env filepath
      else if extension = u ''.docx'' then parse_docx env filepath
      else if extension = u ''.xlsx'' \<or> extension = u ''.xls'' then parse_excel env filepath
      else if extension = u ''.html'' \<or> extension = u ''.htm'' then parse_html env filepath
      else
        ([Log WARNING (u ''Unsupported file format '' @ [39] @ extension @ [39]
                       @ u '' for file: '' @ filepath)],
         Return None))"

text \<open>
  The body of \<open>parse_document\<close> after its first test: the two checks on the path, the
  extension, the dispatch, and the closing diagnostic on \<open>content is not None\<close>.
\<close>

definition parse_path :: "env \<Rightarrow> pystr \<Rightarrow> effect list \<times> content option outcome" where
  "parse_path env filepath =
     (if \<not> path_exists env filepath then
        ([Exists filepath, Log ERROR (u ''File does not exist: '' @ filepath)], Return None)
      else if \<not> path_isfile env filepath then
        ([Exists filepath, IsFile filepath, Log ERROR (u ''Path is not a file: '' @ filepath)],
         Return None)
      else
        (let extension = str_lower env (snd (splitext filepath));
             pre = [Exists filepath, IsFile filepath,
                    Log INFO (u ''Attempting to parse file: '' @ filepath
                              @ u '' (Detected type: '' @ extension @ u '')'')]
         in case dispatch env extension filepath of
              (t, Raise e) \<Rightarrow> (pre @ t, Raise e)
            | (t, Return content) \<Rightarrow>
                (pre @ t
                 @ [case content of
                      Some c \<Rightarrow> Log INFO (u ''Finished parsing: '' @ basename filepath)
                    | None \<Rightarrow> Log ERROR (u ''Failed to parse: '' @ basename filepath)],
                 Return content)))"

text \<open>
  \<open>parse_document\<close>, called with any object: the first test is
  \<open>not isinstance(filepath, str) or not filepath\<close>.
\<close>

fun parse_document :: "env \<Rightarrow> pyval \<Rightarrow> effect list \<times> content option outcome" where
  "parse_document env (PyStr filepath) =
     (if filepath = [] then ([Log ERROR (u ''Invalid filepath provided.'')], Return None)
      else parse_path env filepath)"
| "parse_document env v = ([Log ERROR (u ''Invalid filepath provided.'')], Return None)"

section \<open>Environments for the examples\<close>

text \<open>
  \<open>base_env\<close> is an installation without the optional libraries, in a directory where
  no path exists (every path of the examples is ASCII, so its \<open>unicode_lower\<close> is never
  asked); \<open>with_file\<close> adds a readable regular file. \<open>sample_env\<close> holds the
  dummy files the script's own driver writes before it parses them, with what
  \<open>csv.reader\<close> and \<open>ElementTree\<close> make of them. \<open>odd_env\<close> holds an empty text file,
  the four octets \<open>63 61 66 E9\<close> (the word \<open>caf\<close> and a Latin-1 accented letter), which
  are not \<open>utf-8\<close>, as a text and as a delimited file, and a file of unknown extension.
  \<open>pdf_env\<close> holds a three-page document whose second page fails to extract;
  \<open>blank_page_env\<close> a four-page document whose second page has no text and whose third
  page fails to extract.
  \<open>xml_env\<close> adds a markup file with mixed content, \<open><a>x<b>y</b>z</a>\<close>:
  \<open>ElementTree\<close> keeps \<open>x\<close> and \<open>y\<close> as the \<open>text\<close> of \<open>a\<close> and \<open>b\<close>, and \<open>z\<close>
  as the \<open>tail\<close> of \<open>b\<close>.
\<close>

definition bytes_of :: "string \<Rightarrow> byte list" where
  "bytes_of s = map of_char s"

definition base_env :: env where
  "base_env =
     \<lparr>HAS_PYPDF2 = False, HAS_DOCX = False, HAS_PANDAS = False, HAS_BS4 = False,
      path_exists = (\<lambda>p. False), path_isfile = (\<lambda>p. False),
      open_file = (\<lambda>p. Inl (Exn FileNotFoundError [])),
      codec_error_str = (\<lambda>bs. []),
      csv_reader = (\<lambda>s. []),
      json_loads = (\<lambda>s. Inl (Exn JSONDecodeError [])),
      XMLParser = (\<lambda>bs. Inl (Exn ParseError [])),
      PdfReader = (\<lambda>bs. Inl (Exn PdfReadError [])),
      docx_Document = (\<lambda>bs. Inl (Exn Exception [])),
      read_excel = (\<lambda>e bs. Inl (Exn ValueError [])),
      bs4_get_text = (\<lambda>s. Inl (Exn Exception [])),
      unicode_lower = (\<lambda>s. s)\<rparr>"

definition with_file :: "pystr \<Rightarrow> byte list \<Rightarrow> env \<Rightarrow> env" where
  "with_file p bs env =
     env\<lparr>path_exists := (path_exists env)(p := True),
         path_isfile := (path_isfile env)(p := True),
         open_file := (open_file env)(p := Inr bs)\<rparr>"

definition sample_xml :: element where
  "sample_xml =
     Element (u ''data'') [] None None
       [Element (u ''item'') [(u ''name'', u ''A'')] (Some (u ''1'')) None [],
        Element (u ''item'') [(u ''name'', u ''B'')] (Some (u ''2'')) None []]"

definition sample_env :: env where
  "sample_env =
     (with_file (u ''sample.txt'')
        (bytes_of ''This is line one.'' @ [10] @ bytes_of ''This is line two.'')
     (with_file (u ''sample.csv'')
        (bytes_of ''ColA,ColB'' @ [13, 10] @ bytes_of ''Data1,10'' @ [13, 10]
         @ bytes_of ''Data2,20'' @ [13, 10])
     (with_file (u ''sample.xml'')
        (bytes_of ''<data><item name='' @ [34] @ bytes_of ''A'' @ [34] @ bytes_of ''>1</item><item name=''
         @ [34] @ bytes_of ''B'' @ [34] @ bytes_of ''>2</item></data>'')
     (with_file (u ''sample.html'')
        (bytes_of ''<!DOCTYPE html><html><body><p>Hello</p><p>World</p></body></html>'')
        base_env))))
     \<lparr>csv_reader := (\<lambda>s. [Row [u ''ColA'', u ''ColB''], Row [u ''Data1'', u ''10''],
                             Row [u ''Data2'', u ''20'']]),
      XMLParser := (\<lambda>bs. Inr sample_xml)\<rparr>"

definition odd_env :: env where
  "odd_env =
     with_file (u ''empty.txt'') []
     (with_file (u ''latin1.txt'') [0x63, 0x61, 0x66, 0xE9]
     (with_file (u ''latin1.csv'') [0x63, 0x61, 0x66, 0xE9]
     (with_file (u ''data.xyz'') (bytes_of ''ColA,ColB'') base_env)))"

definition pdf_env :: env where
  "pdf_env =
     (with_file (u ''report.pdf'') (bytes_of ''%PDF-1.4'') base_env)
     \<lparr>HAS_PYPDF2 := True,
      PdfReader := (\<lambda>bs. Inr [Inr (u ''First page''), Inl (Exn Exception (u ''bad page'')),
                               Inr (u ''Third page'')])\<rparr>"

definition blank_page_env :: env where
  "blank_page_env =
     (with_file (u ''blank.pdf'') (bytes_of ''%PDF-1.4'') base_env)
     \<lparr>HAS_PYPDF2 := True,
      PdfReader := (\<lambda>bs. Inr [Inr (u ''A''), Inr [], Inl (Exn Exception (u ''bad page'')),
                               Inr (u ''B'')])\<rparr>"

definition mixed_xml :: element where
  "mixed_xml =
     Element (u ''a'') [] (Some (u ''x'')) None
       [Element (u ''b'') [] (Some (u ''y'')) (Some (u ''z'')) []]"

definition xml_env :: env where
  "xml_env =
     (with_file (u ''mixed.xml'') (bytes_of ''<a>x<b>y</b>z</a>'') sample_env)
     \<lparr>XMLParser :=
        (\<lambda>bs. if bs = bytes_of ''<a>x<b>y</b>z</a>'' then Inr mixed_xml
              else XMLParser sample_env bs)\<rparr>"

text \<open>
  Every exception the file system and the libraries raise is an instance of
  \<open>Exception\<close>: the environment delivers no \<open>KeyboardInterrupt\<close> or \<open>SystemExit\<close>
  in the middle of a call.
\<close>

definition raises_only_Exception :: "env \<Rightarrow> bool" where
  "raises_only_Exception env =
     ((\<forall>p e. open_file env p = Inl e \<longrightarrow> isinstance e Exception)
      \<and> (\<forall>s e n. CsvRaise e n \<in> set (csv_reader env s) \<longrightarrow> isinstance e Exception)
      \<and> (\<forall>s e. json_loads env s = Inl e \<longrightarrow> isinstance e Exception)
      \<and> (\<forall>bs e. XMLParser env bs = Inl e \<longrightarrow> isinstance e Exception)
      \<and> (\<forall>bs e. PdfReader env bs = Inl e \<longrightarrow> isinstance e Exception)
      \<and> (\<forall>bs pages e. PdfReader env bs = Inr pages \<longrightarrow> Inl e \<in> set pages
             \<longrightarrow> isinstance e Exception)
      \<and> (\<forall>bs e. docx_Document env bs = Inl e \<longrightarrow> isinstance e Exception)
      \<and> (\<forall>eng bs e. read_excel env eng bs = Inl e \<longrightarrow> isinstance e Exception)
      \<and> (\<forall>s e. bs4_get_text env s = Inl e \<longrightarrow> isinstance e Exception))"

definition returns :: "effect list \<times> content option outcome \<Rightarrow> bool" where
  "returns r = (case snd r of Return c \<Rightarrow> True | Raise e \<Rightarrow> False)"

section \<open>Basic facts\<close>

lemma splitext_Nil: "splitext [] = ([], [])"
  by (simp add: splitext_def rfind_def)

lemma u_eq_iff: "(u a = u b) = (a = b)"
proof -
  have "inj (of_char :: char \<Rightarrow> nat)"
    by (rule injI) simp
  then show ?thesis
    by (simp add: u_def inj_map_eq_map)
qed

lemma u_Nil: "u [] = []"
  by (simp add: u_def)

lemma u_eq_Nil_iff: "(u s = []) = (s = [])" "([] = u s) = (s = [])"
  by (auto simp: u_def)

lemma dispatch_simps:
  "dispatch env (u ''.txt'') p = parse_txt env p"
  "dispatch env (u ''.csv'') p = parse_csv env p"
  "dispatch env (u ''.json'') p = parse_json env p"
  "dispatch env (u ''.xml'') p = parse_xml env p"
  "dispatch env (u ''.pdf'') p = parse_pdf env p"
  "dispatch env (u ''.docx'') p = parse_docx env p"
  "dispatch env (u ''.xlsx'') p = parse_excel env p"
  "dispatch env (u ''.xls'') p = parse_excel env p"
  "dispatch env (u ''.html'') p = parse_html env p"
  "dispatch env (u ''.htm'') p = parse_html env p"
  by (simp_all add: dispatch_def u_eq_iff)

lemma parse_document_regular:
  assumes "path_exists env p" and "path_isfile env p" and "p \<noteq> []"
    and "str_lower env (snd (splitext p)) = extension"
    and "dispatch env extension p = (t, Return content)"
  shows "parse_document env (PyStr p) =
           ([Exists p, IsFile p,
             Log INFO (u ''Attempting to parse file: '' @ p @ u '' (Detected type: '' @ extension
                       @ u '')'')] @ t
            @ [case content of
                 Some c \<Rightarrow> Log INFO (u ''Finished parsing: '' @ basename p)
               | None \<Rightarrow> Log ERROR (u ''Failed to parse: '' @ basename p)],
            Return content)"
  using assms by (simp add: parse_path_def Let_def)

lemma sample_env_raises_only_Exception: "raises_only_Exception sample_env"
  by (simp add: raises_only_Exception_def sample_env_def with_file_def base_env_def
      isinstance_def)

lemma extension_sample:
  "str_lower sample_env (snd (splitext (u ''sample.txt''))) = u ''.txt''"
  "str_lower sample_env (snd (splitext (u ''sample.csv''))) = u ''.csv''"
  "str_lower sample_env (snd (splitext (u ''sample.xml''))) = u ''.xml''"
  "str_lower sample_env (snd (splitext (u ''sample.html''))) = u ''.html''"
  by (simp_all add: splitext_def rfind_def u_def str_lower_def chr_lower_def)

lemma extension_odd:
  "str_lower odd_env (snd (splitext (u ''empty.txt''))) = u ''.txt''"
  "str_lower odd_env (snd (splitext (u ''latin1.txt''))) = u ''.txt''"
  "str_lower odd_env (snd (splitext (u ''latin1.csv''))) = u ''.csv''"
  "str_lower odd_env (snd (splitext (u ''data.xyz''))) = u ''.xyz''"
  by (simp_all add: splitext_def rfind_def u_def str_lower_def chr_lower_def)

lemma basename_plain:
  "basename (u ''sample.txt'') = u ''sample.txt''"
  "basename (u ''sample.csv'') = u ''sample.csv''"
  "basename (u ''sample.html'') = u ''sample.html''"
  "basename (u ''empty.txt'') = u ''empty.txt''"
  "basename (u ''latin1.txt'') = u ''latin1.txt''"
  "basename (u ''latin1.csv'') = u ''latin1.csv''"
  "basename (u ''data.xyz'') = u ''data.xyz''"
  by (simp_all add: basename_def rfind_def u_def)

lemma odd_env_files:
  "path_exists odd_env (u ''empty.txt'')" "path_isfile odd_env (u ''empty.txt'')"
  "open_file odd_env (u ''empty.txt'') = Inr []"
  "path_exists odd_env (u ''latin1.txt'')" "path_isfile odd_env (u ''latin1.txt'')"
  "open_file odd_env (u ''latin1.txt'') = Inr [0x63, 0x61, 0x66, 0xE9]"
  "path_exists odd_env (u ''latin1.csv'')" "path_isfile odd_env (u ''latin1.csv'')"
  "open_file odd_env (u ''latin1.csv'') = Inr [0x63, 0x61, 0x66, 0xE9]"
  "path_exists odd_env (u ''data.xyz'')" "path_isfile odd_env (u ''data.xyz'')"
  by (simp_all add: odd_env_def with_file_def base_env_def u_eq_iff)

lemma u_append: "u (a @ b) = u a @ u b"
  by (simp add: u_def)

lemma sample_env_files:
  "path_exists sample_env (u ''sample.txt'')" "path_isfile sample_env (u ''sample.txt'')"
  "open_file sample_env (u ''sample.txt'')
     = Inr (bytes_of ''This is line one.'' @ [10] @ bytes_of ''This is line two.'')"
  "path_exists sample_env (u ''sample.csv'')" "path_isfile sample_env (u ''sample.csv'')"
  "open_file sample_env (u ''sample.csv'')
     = Inr (bytes_of ''ColA,ColB'' @ [13, 10] @ bytes_of ''Data1,10'' @ [13, 10]
            @ bytes_of ''Data2,20'' @ [13, 10])"
  by (simp_all add: sample_env_def with_file_def base_env_def u_eq_iff)

lemma pdf_env_file:
  "path_exists pdf_env (u ''report.pdf'')" "path_isfile pdf_env (u ''report.pdf'')"
  "HAS_PYPDF2 pdf_env"
  "open_file pdf_env (u ''report.pdf'') = Inr (bytes_of ''%PDF-1.4'')"
  "PdfReader pdf_env bs =
     Inr (map Inr [u ''First page''] @ Inl (Exn Exception (u ''bad page''))
          # map Inr [u ''Third page''])"
  by (simp_all add: pdf_env_def with_file_def base_env_def)

lemma extension_report: "str_lower pdf_env (snd (splitext (u ''report.pdf''))) = u ''.pdf''"
  by (simp add: splitext_def rfind_def u_def str_lower_def chr_lower_def)

section \<open>Every exit of \<open>parse_document\<close> is a returned value\<close>

lemma read_text_Exception:
  "raises_only_Exception env \<Longrightarrow> read_text env p enc errs un = (t, Inl e) \<Longrightarrow> isinstance e Exception"
  by (auto simp: read_text_def raises_only_Exception_def isinstance_def
      split: sum.splits option.splits)

lemma parse_txt_returns: "raises_only_Exception env \<Longrightarrow> returns (parse_txt env p)"
  by (auto simp: returns_def parse_txt_def parse_txt_try_def
      split: prod.splits sum.splits if_splits dest: read_text_Exception)

lemma csv_loop_Exception:
  "\<forall>e n. CsvRaise e n \<in> set items \<longrightarrow> isinstance e Exception \<Longrightarrow>
   csv_loop items rows = Inl (e, n) \<Longrightarrow> isinstance e Exception"
  by (induction items rows rule: csv_loop.induct) auto

lemma parse_csv_returns: "raises_only_Exception env \<Longrightarrow> returns (parse_csv env p)"
proof -
  assume env: "raises_only_Exception env"
  then have "\<forall>s e n. CsvRaise e n \<in> set (csv_reader env s) \<longrightarrow> isinstance e Exception"
    by (simp add: raises_only_Exception_def)
  then have loop: "\<And>s e n. csv_loop (csv_reader env s) [] = Inl (e, n) \<Longrightarrow> isinstance e Exception"
    using csv_loop_Exception by blast
  show ?thesis
    using read_text_Exception [OF env] loop
    by (auto simp: returns_def parse_csv_def parse_csv_try_def
        split: prod.splits sum.splits if_splits)
qed

lemma parse_json_returns: "raises_only_Exception env \<Longrightarrow> returns (parse_json env p)"
proof -
  assume env: "raises_only_Exception env"
  then have "\<And>s e. json_loads env s = Inl e \<Longrightarrow> isinstance e Exception"
    by (simp add: raises_only_Exception_def)
  then show ?thesis
    using read_text_Exception [OF env]
    by (auto simp: returns_def parse_json_def parse_json_try_def
        split: prod.splits sum.splits if_splits)
qed

lemma parse_xml_returns: "raises_only_Exception env \<Longrightarrow> returns (parse_xml env p)"
  by (auto simp: returns_def parse_xml_def parse_xml_try_def raises_only_Exception_def
      split: prod.splits sum.splits if_splits)

lemma extract_pages_Exception:
  "\<forall>e. Inl e \<in> set pages \<longrightarrow> isinstance e Exception \<Longrightarrow>
   extract_pages p n pages acc = (t, Inl e) \<Longrightarrow> isinstance e Exception"
  by (induction p n pages acc arbitrary: t rule: extract_pages.induct)
     (auto split: sum.splits if_splits prod.splits)

lemma parse_pdf_returns: "raises_only_Exception env \<Longrightarrow> returns (parse_pdf env p)"
proof -
  assume env: "raises_only_Exception env"
  then have all: "\<forall>bs pages e. PdfReader env bs = Inr pages \<longrightarrow> Inl e \<in> set pages
      \<longrightarrow> isinstance e Exception"
    by (simp add: raises_only_Exception_def)
  have pages: "isinstance e Exception"
    if "PdfReader env bs = Inr pages" and "extract_pages p n pages acc = (t, Inl e)"
    for bs pages n acc t e
  proof -
    from all that(1) have "\<forall>e. Inl e \<in> set pages \<longrightarrow> isinstance e Exception"
      by blast
    then show ?thesis
      using that(2) by (rule extract_pages_Exception)
  qed
  from env have "\<And>p e. open_file env p = Inl e \<Longrightarrow> isinstance e Exception"
    and "\<And>bs e. PdfReader env bs = Inl e \<Longrightarrow> isinstance e Exception"
    by (simp_all add: raises_only_Exception_def)
  then show ?thesis
    using pages
    by (auto simp: returns_def parse_pdf_def parse_pdf_try_def
        split: prod.splits sum.splits if_splits)
qed

lemma parse_docx_returns: "raises_only_Exception env \<Longrightarrow> returns (parse_docx env p)"
  by (auto simp: returns_def parse_docx_def parse_docx_try_def raises_only_Exception_def
      split: prod.splits sum.splits if_splits)

lemma parse_excel_returns: "raises_only_Exception env \<Longrightarrow> returns (parse_excel env p)"
  by (auto simp: returns_def parse_excel_def parse_excel_try_def raises_only_Exception_def Let_def
      split: prod.splits sum.splits if_splits)

lemma parse_html_returns: "raises_only_Exception env \<Longrightarrow> returns (parse_html env p)"
proof -
  assume env: "raises_only_Exception env"
  then have "\<And>s e. bs4_get_text env s = Inl e \<Longrightarrow> isinstance e Exception"
    by (simp add: raises_only_Exception_def)
  then show ?thesis
    using read_text_Exception [OF env]
    by (auto simp: returns_def parse_html_def parse_html_try_def
        split: prod.splits sum.splits if_splits)
qed

lemma dispatch_returns: "raises_only_Exception env \<Longrightarrow> returns (dispatch env ext p)"
  using parse_txt_returns parse_csv_returns parse_json_returns parse_xml_returns
    parse_pdf_returns parse_docx_returns parse_excel_returns parse_html_returns
  by (simp add: dispatch_def) (simp add: returns_def)

text \<open>An exception that does leave a call is not an instance of \<open>Exception\<close>.\<close>

lemma strategy_raise:
  "parse_txt env p = (t, Raise e) \<Longrightarrow> \<not> isinstance e Exception"
  "parse_csv env p = (t, Raise e) \<Longrightarrow> \<not> isinstance e Exception"
  "parse_json env p = (t, Raise e) \<Longrightarrow> \<not> isinstance e Exception"
  "parse_xml env p = (t, Raise e) \<Longrightarrow> \<not> isinstance e Exception"
  "parse_pdf env p = (t, Raise e) \<Longrightarrow> \<not> isinstance e Exception"
  "parse_docx env p = (t, Raise e) \<Longrightarrow> \<not> isinstance e Exception"
  "parse_excel env p = (t, Raise e) \<Longrightarrow> \<not> isinstance e Exception"
  "parse_html env p = (t, Raise e) \<Longrightarrow> \<not> isinstance e Exception"
  by (auto simp: parse_txt_def parse_csv_def parse_json_def parse_xml_def parse_pdf_def
        parse_docx_def parse_excel_def parse_html_def
      split: prod.splits sum.splits if_splits)

lemma parse_document_raise:
  assumes "parse_document env v = (t, Raise e)"
  shows "\<not> isinstance e Exception"
proof -
  have d: "dispatch env ext p = (t', Raise e) \<Longrightarrow> \<not> isinstance e Exception" for ext p t'
    using strategy_raise [of env p t' e] by (auto simp: dispatch_def split: if_splits)
  have "parse_path env p = (t, Raise e) \<Longrightarrow> \<not> isinstance e Exception" for p
    using d by (auto simp: parse_path_def Let_def split: if_splits prod.splits outcome.splits)
  then show ?thesis
    using assms by (cases v) (auto split: if_splits)
qed


text \<open>
  Claim C1. Whatever the argument (a missing path, a directory, an unsupported extension,
  a file whose content is malformed for its format, or no path at all),
  \<open>parse_document\<close> returns a value, the parsed content or \<open>None\<close>, and lets no
  exception out: every statement that can raise stands inside a \<open>try\<close> whose last handler
  is \<open>except Exception\<close>.
\<close>

theorem parse_document_never_raises:
  "raises_only_Exception env \<Longrightarrow> \<exists>t content. parse_document env v = (t, Return content)"
proof -
  assume env: "raises_only_Exception env"
  have path: "\<exists>t content. parse_path env p = (t, Return content)" for p
    using dispatch_returns [OF env, of "str_lower env (snd (splitext p))" p]
    by (auto simp: parse_path_def Let_def returns_def split: prod.splits outcome.splits)
  show ?thesis
    using path by (cases v) auto
qed

theorem parse_document_never_raises_witness:
  "raises_only_Exception sample_env
   \<and> (\<exists>t content. parse_document sample_env (PyStr (u ''sample.txt'')) = (t, Return content))"
  using parse_document_never_raises [of sample_env "PyStr (u ''sample.txt'')"]
    sample_env_raises_only_Exception
  by simp

section \<open>A missing backend\<close>

text \<open>
  Claim C2, as amended. For an existing regular file whose extension selects a strategy
  that needs an optional library, when the flag of that library is off the call returns
  \<open>None\<close>, the value every failed call returns, without opening the file and without
  raising. What tells this failure from the others is the trace alone: it is exactly the
  attempt, the error that names the missing library, and the dispatcher's closing
  \<open>Failed to parse\<close> error.
\<close>

theorem backend_unavailable:
  assumes "path_exists env p" and "path_isfile env p"
    and "extension = str_lower env (snd (splitext p))"
    and "(extension = u ''.pdf'' \<and> \<not> HAS_PYPDF2 env)
         \<or> (extension = u ''.docx'' \<and> \<not> HAS_DOCX env)
         \<or> ((extension = u ''.xlsx'' \<or> extension = u ''.xls'') \<and> \<not> HAS_PANDAS env)
         \<or> ((extension = u ''.html'' \<or> extension = u ''.htm'') \<and> \<not> HAS_BS4 env)"
  shows "parse_document env (PyStr p) =
           ([Exists p, IsFile p,
             Log INFO (u ''Attempting to parse file: '' @ p @ u '' (Detected type: '' @ extension
                       @ u '')''),
             Log ERROR
               (if extension = u ''.pdf''
                then u ''PyPDF2 library is required for PDF parsing but not found.''
                else if extension = u ''.docx''
                then u ''python-docx library is required for DOCX parsing but not found.''
                else if extension = u ''.xlsx'' \<or> extension = u ''.xls''
                then u ''pandas, openpyxl, xlrd libraries required for Excel parsing but not found.''
                else u ''beautifulsoup4 and lxml libraries required for HTML parsing but not found.''),
             Log ERROR (u ''Failed to parse: '' @ basename p)],
            Return None)"
proof -
  have ne: "p \<noteq> []"
    using assms(3,4) by (auto simp: splitext_Nil str_lower_def u_eq_Nil_iff)
  note reg = parse_document_regular [OF assms(1,2) ne assms(3) [symmetric]]
  from assms(4) consider
      (pdf) "extension = u ''.pdf''" "\<not> HAS_PYPDF2 env"
    | (docx) "extension = u ''.docx''" "\<not> HAS_DOCX env"
    | (xlsx) "extension = u ''.xlsx''" "\<not> HAS_PANDAS env"
    | (xls) "extension = u ''.xls''" "\<not> HAS_PANDAS env"
    | (html) "extension = u ''.html''" "\<not> HAS_BS4 env"
    | (htm) "extension = u ''.htm''" "\<not> HAS_BS4 env"
    by blast
  then show ?thesis
  proof cases
    case pdf
    then show ?thesis
      by (subst reg [where content = None]) (simp_all add: dispatch_simps parse_pdf_def)
  next
    case docx
    then show ?thesis
      by (subst reg [where content = None])
         (simp_all add: dispatch_simps parse_docx_def u_eq_iff)
  next
    case xlsx
    then show ?thesis
      by (subst reg [where content = None])
         (simp_all add: dispatch_simps parse_excel_def u_eq_iff)
  next
    case xls
    then show ?thesis
      by (subst reg [where content = None])
         (simp_all add: dispatch_simps parse_excel_def u_eq_iff)
  next
    case html
    then show ?thesis
      by (subst reg [where content = None])
         (simp_all add: dispatch_simps parse_html_def u_eq_iff)
  next
    case htm
    then show ?thesis
      by (subst reg [where content = None])
         (simp_all add: dispatch_simps parse_html_def u_eq_iff)
  qed
qed

theorem backend_unavailable_witness:
  "path_exists sample_env (u ''sample.html'') \<and> path_isfile sample_env (u ''sample.html'')
   \<and> \<not> HAS_BS4 sample_env
   \<and> parse_document sample_env (PyStr (u ''sample.html'')) =
       ([Exists (u ''sample.html''), IsFile (u ''sample.html''),
         Log INFO (u ''Attempting to parse file: sample.html (Detected type: .html)''),
         Log ERROR
           (u ''beautifulsoup4 and lxml libraries required for HTML parsing but not found.''),
         Log ERROR (u ''Failed to parse: sample.html'')],
        Return None)"
proof -
  have e: "path_exists sample_env (u ''sample.html'')" "path_isfile sample_env (u ''sample.html'')"
    "\<not> HAS_BS4 sample_env"
    by (simp_all add: sample_env_def with_file_def base_env_def)
  have b: "basename (u ''sample.html'') = u ''sample.html''"
    by (simp add: basename_def rfind_def u_def)
  show ?thesis
    using backend_unavailable [OF e(1,2) extension_sample(4) [symmetric]] e b
    by (simp add: u_eq_iff) (simp add: u_def)
qed

text \<open>
  The claim as stated has the call return a failure kind of its own. The code has one
  failure value: the call on \<open>sample.html\<close>, whose backend is missing, and the call on
  the path \<open>non_existent_file.xyz\<close>, which does not exist, return the same \<open>None\<close>.
\<close>

theorem missing_backend_returns_the_common_None:
  "path_exists sample_env (u ''sample.html'') \<and> path_isfile sample_env (u ''sample.html'')
   \<and> str_lower sample_env (snd (splitext (u ''sample.html''))) = u ''.html''
   \<and> \<not> HAS_BS4 sample_env
   \<and> \<not> path_exists sample_env (u ''non_existent_file.xyz'')
   \<and> snd (parse_document sample_env (PyStr (u ''sample.html''))) = Return None
   \<and> snd (parse_document sample_env (PyStr (u ''non_existent_file.xyz''))) = Return None
   \<and> snd (parse_document sample_env (PyStr (u ''sample.html'')))
       = snd (parse_document sample_env (PyStr (u ''non_existent_file.xyz'')))"
proof -
  have e: "path_exists sample_env (u ''sample.html'')" "path_isfile sample_env (u ''sample.html'')"
    "\<not> HAS_BS4 sample_env" "\<not> path_exists sample_env (u ''non_existent_file.xyz'')"
    by (simp_all add: sample_env_def with_file_def base_env_def u_eq_iff)
  have ne: "u ''sample.html'' \<noteq> []" "u ''non_existent_file.xyz'' \<noteq> []"
    by (simp_all add: u_eq_Nil_iff)
  have "dispatch sample_env (u ''.html'') (u ''sample.html'') =
          ([Log ERROR
              (u ''beautifulsoup4 and lxml libraries required for HTML parsing but not found.'')],
           Return None)"
    using e(3) by (simp add: dispatch_simps parse_html_def)
  from parse_document_regular [OF e(1,2) ne(1) extension_sample(4) this]
  have html: "snd (parse_document sample_env (PyStr (u ''sample.html''))) = Return None"
    by simp
  have missing: "snd (parse_document sample_env (PyStr (u ''non_existent_file.xyz''))) = Return None"
    using e(4) ne(2) by (simp add: parse_path_def)
  show ?thesis
    using e extension_sample(4) html missing by simp
qed

section \<open>Partial failure inside a portable document\<close>

lemma extract_pages_texts:
  "extract_pages filepath n (map Inr texts @ pages) acc =
     extract_pages filepath (n + length texts) pages
       (acc @ concat (map (\<lambda>s. s @ [10]) (filter (\<lambda>s. s \<noteq> []) texts)))"
  by (induction texts arbitrary: n acc) simp_all

lemma extract_pages_one_failure:
  assumes "isinstance e Exception"
  shows "extract_pages filepath 0 (map Inr before @ Inl e # map Inr after) [] =
           ([Log WARNING (u ''Could not extract text from page '' @ str_nat (length before + 1)
                          @ u '' in '' @ filepath @ u '': '' @ exn_str e)],
            Inr (concat (map (\<lambda>s. s @ [10]) (filter (\<lambda>s. s \<noteq> []) (before @ after)))))"
proof -
  have "extract_pages filepath (length before + 1) (map Inr after @ [])
          (concat (map (\<lambda>s. s @ [10]) (filter (\<lambda>s. s \<noteq> []) before))) =
        ([], Inr (concat (map (\<lambda>s. s @ [10]) (filter (\<lambda>s. s \<noteq> []) (before @ after)))))"
    by (subst extract_pages_texts) simp
  then show ?thesis
    using assms by (simp add: extract_pages_texts)
qed

lemma str_strip_newline: "str_strip (s @ [10]) = str_strip s"
proof -
  have sp: "isspace 10" by (simp add: isspace_def)
  show ?thesis
  proof (cases "\<forall>c \<in> set s. isspace c")
    case True
    with sp have "\<forall>c \<in> set (s @ [10]). isspace c" by simp
    with True have "dropWhile isspace s = []" and "dropWhile isspace (s @ [10]) = []"
      unfolding dropWhile_eq_Nil_conv by blast+
    then show ?thesis by (simp only: str_strip_def)
  next
    case False
    then have "dropWhile isspace (s @ [10]) = dropWhile isspace s @ [10]"
      by (auto simp: dropWhile_append1)
    then show ?thesis using sp by (simp add: str_strip_def)
  qed
qed

lemma concat_lines: "concat (map (\<lambda>s. s @ [10]) (t # ts)) = str_join [10] (t # ts) @ [10]"
  by (induction ts arbitrary: t) simp_all

lemma str_strip_lines: "str_strip (concat (map (\<lambda>s. s @ [10]) ts)) = str_strip (str_join [10] ts)"
proof (cases ts)
  case Nil
  then show ?thesis by simp
next
  case (Cons t ts')
  then show ?thesis by (simp only: concat_lines str_strip_newline)
qed

text \<open>
  Claim C3, as amended. When exactly one page of a portable document raises while its
  text is extracted and every other page yields its text, the call succeeds: the text is
  that of the other pages whose text is not empty, in page order, joined by newlines and
  stripped. A page whose text is empty adds nothing, not even a newline (the loop tests
  \<open>if page_text\<close>). One warning is logged, for the failing page, and the failure does
  not reach the caller.
\<close>

theorem pdf_page_failure_is_skipped:
  assumes "path_exists env p" and "path_isfile env p"
    and "str_lower env (snd (splitext p)) = u ''.pdf''"
    and "HAS_PYPDF2 env"
    and "open_file env p = Inr bs"
    and "PdfReader env bs = Inr (map Inr before @ Inl e # map Inr after)"
    and "isinstance e Exception"
  shows "\<exists>t. parse_document env (PyStr p) =
             (t, Return (Some (Text (str_strip
                (str_join [10] (filter (\<lambda>page_text. page_text \<noteq> []) (before @ after)))))))
           \<and> t = [Exists p, IsFile p,
                  Log INFO (u ''Attempting to parse file: '' @ p @ u '' (Detected type: .pdf)''),
                  Open p,
                  Log INFO (u ''Reading '' @ str_nat (length before + 1 + length after)
                            @ u '' pages from PDF: '' @ basename p @ u ''...''),
                  Log WARNING (u ''Could not extract text from page ''
                               @ str_nat (length before + 1) @ u '' in '' @ p @ u '': ''
                               @ exn_str e),
                  Log INFO (u ''Finished extracting text from PDF: '' @ basename p),
                  Log INFO (u ''Finished parsing: '' @ basename p)]
           \<and> length (filter (\<lambda>x. case x of Log WARNING m \<Rightarrow> True | _ \<Rightarrow> False) t) = 1"
proof -
  have ne: "p \<noteq> []"
    using assms(3) by (auto simp: splitext_Nil str_lower_def u_eq_Nil_iff)
  have "dispatch env (u ''.pdf'') p =
          ([Open p,
            Log INFO (u ''Reading '' @ str_nat (length before + 1 + length after)
                      @ u '' pages from PDF: '' @ basename p @ u ''...''),
            Log WARNING (u ''Could not extract text from page ''
                         @ str_nat (length before + 1) @ u '' in '' @ p @ u '': ''
                         @ exn_str e),
            Log INFO (u ''Finished extracting text from PDF: '' @ basename p)],
           Return (Some (Text (str_strip
              (str_join [10] (filter (\<lambda>page_text. page_text \<noteq> []) (before @ after)))))))"
    using assms(4,5,6)
    by (simp add: dispatch_simps parse_pdf_def parse_pdf_try_def
          extract_pages_one_failure [OF assms(7)] str_strip_lines del: filter_append)
  from parse_document_regular [OF assms(1,2) ne assms(3) this]
  show ?thesis by (simp add: u_append [symmetric])
qed

theorem pdf_page_failure_is_skipped_witness:
  "path_exists pdf_env (u ''report.pdf'') \<and> path_isfile pdf_env (u ''report.pdf'')
   \<and> HAS_PYPDF2 pdf_env
   \<and> isinstance (Exn Exception (u ''bad page'')) Exception
   \<and> parse_document pdf_env (PyStr (u ''report.pdf'')) =
       ([Exists (u ''report.pdf''), IsFile (u ''report.pdf''),
         Log INFO (u ''Attempting to parse file: report.pdf (Detected type: .pdf)''),
         Open (u ''report.pdf''),
         Log INFO (u ''Reading 3 pages from PDF: report.pdf...''),
         Log WARNING (u ''Could not extract text from page 2 in report.pdf: bad page''),
         Log INFO (u ''Finished extracting text from PDF: report.pdf''),
         Log INFO (u ''Finished parsing: report.pdf'')],
        Return (Some (Text (u ''First page'' @ [10] @ u ''Third page''))))"
proof -
  have ex: "isinstance (Exn Exception (u ''bad page'')) Exception"
    by (simp add: isinstance_def)
  show ?thesis
    using pdf_page_failure_is_skipped
            [OF pdf_env_file(1,2) extension_report pdf_env_file(3,4,5) ex]
      pdf_env_file(1,2,3) ex
    by (simp add: str_nat.simps)
       (simp add: u_def basename_def rfind_def str_strip_def isspace_def)
qed

text \<open>
  The claim as stated makes the text the newline-separated text of all the other pages.
  In \<open>blank_page_env\<close> the pages are \<open>A\<close>, an empty page, a failing page and \<open>B\<close>:
  the call returns \<open>A\<close>, one newline, \<open>B\<close>, whereas the texts of the three other pages
  separated by newlines have two newlines between \<open>A\<close> and \<open>B\<close>.
\<close>

theorem empty_page_leaves_no_line:
  "PdfReader blank_page_env (bytes_of ''%PDF-1.4'')
     = Inr [Inr (u ''A''), Inr [], Inl (Exn Exception (u ''bad page'')), Inr (u ''B'')]
   \<and> snd (parse_document blank_page_env (PyStr (u ''blank.pdf'')))
       = Return (Some (Text (u ''A'' @ [10] @ u ''B'')))
   \<and> str_strip (str_join [10] [u ''A'', [], u ''B'']) = u ''A'' @ [10, 10] @ u ''B''
   \<and> u ''A'' @ [10] @ u ''B'' \<noteq> str_strip (str_join [10] [u ''A'', [], u ''B''])"
proof -
  have f: "path_exists blank_page_env (u ''blank.pdf'')"
    "path_isfile blank_page_env (u ''blank.pdf'')"
    "HAS_PYPDF2 blank_page_env"
    "open_file blank_page_env (u ''blank.pdf'') = Inr (bytes_of ''%PDF-1.4'')"
    "PdfReader blank_page_env (bytes_of ''%PDF-1.4'')
       = Inr [Inr (u ''A''), Inr [], Inl (Exn Exception (u ''bad page'')), Inr (u ''B'')]"
    by (simp_all add: blank_page_env_def with_file_def base_env_def)
  have ne: "u ''blank.pdf'' \<noteq> []" by (simp add: u_eq_Nil_iff)
  have ext: "str_lower blank_page_env (snd (splitext (u ''blank.pdf''))) = u ''.pdf''"
    by (simp add: splitext_def rfind_def u_def str_lower_def chr_lower_def)
  have "\<exists>t. dispatch blank_page_env (u ''.pdf'') (u ''blank.pdf'')
              = (t, Return (Some (Text (u ''A'' @ [10] @ u ''B''))))"
    by (simp add: dispatch_simps parse_pdf_def parse_pdf_try_def f)
       (simp add: isinstance_def str_strip_def isspace_def u_def)
  then obtain t where "dispatch blank_page_env (u ''.pdf'') (u ''blank.pdf'')
      = (t, Return (Some (Text (u ''A'' @ [10] @ u ''B''))))" ..
  from parse_document_regular [OF f(1,2) ne ext this]
  have res: "snd (parse_document blank_page_env (PyStr (u ''blank.pdf'')))
               = Return (Some (Text (u ''A'' @ [10] @ u ''B'')))"
    by simp
  have joined: "str_strip (str_join [10] [u ''A'', [], u ''B'']) = u ''A'' @ [10, 10] @ u ''B''"
    by (simp add: str_strip_def isspace_def u_def)
  have "u ''A'' @ [10] @ u ''B'' \<noteq> u ''A'' @ [10, 10] @ u ''B''"
    by (simp add: u_def)
  with f(5) res joined show ?thesis by simp
qed

section \<open>What a success and a failure carry\<close>

lemma parse_txt_variant: "parse_txt env p = (t, Return (Some c)) \<Longrightarrow> \<exists>s. c = Text s"
  by (auto simp: parse_txt_def split: prod.splits sum.splits if_splits)

lemma parse_csv_variant: "parse_csv env p = (t, Return (Some c)) \<Longrightarrow> \<exists>rows. c = Table rows"
  by (auto simp: parse_csv_def split: prod.splits sum.splits if_splits)

lemma parse_json_variant:
  "parse_json env p = (t, Return (Some c)) \<Longrightarrow> \<exists>d. c = StructuredValue d \<and> d \<noteq> JNull"
  by (auto simp: parse_json_def split: prod.splits sum.splits if_splits json.splits)

lemma parse_xml_variant: "parse_xml env p = (t, Return (Some c)) \<Longrightarrow> \<exists>s. c = Text s"
  by (auto simp: parse_xml_def split: prod.splits sum.splits if_splits)

lemma parse_pdf_variant: "parse_pdf env p = (t, Return (Some c)) \<Longrightarrow> \<exists>s. c = Text s"
  by (auto simp: parse_pdf_def split: prod.splits sum.splits if_splits)

lemma parse_docx_variant: "parse_docx env p = (t, Return (Some c)) \<Longrightarrow> \<exists>s. c = Text s"
  by (auto simp: parse_docx_def split: prod.splits sum.splits if_splits)

lemma parse_excel_variant:
  "parse_excel env p = (t, Return (Some c)) \<Longrightarrow> \<exists>sheets. c = SheetSet sheets"
  by (auto simp: parse_excel_def split: prod.splits sum.splits if_splits)

lemma parse_html_variant: "parse_html env p = (t, Return (Some c)) \<Longrightarrow> \<exists>s. c = Text s"
  by (auto simp: parse_html_def split: prod.splits sum.splits if_splits)

lemma dispatch_variant:
  assumes "dispatch env extension p = (t, Return (Some c))"
  shows "case c of
           Text s \<Rightarrow> extension \<in> set [u ''.txt'', u ''.xml'', u ''.pdf'', u ''.docx'', u ''.html'',
                                       u ''.htm'']
         | Table rows \<Rightarrow> extension = u ''.csv''
         | StructuredValue d \<Rightarrow> extension = u ''.json'' \<and> d \<noteq> JNull
         | SheetSet sheets \<Rightarrow> extension \<in> set [u ''.xlsx'', u ''.xls'']"
  using assms
  by (auto simp: dispatch_def split: if_splits
      dest!: parse_txt_variant parse_csv_variant parse_json_variant parse_xml_variant
        parse_pdf_variant parse_docx_variant parse_excel_variant parse_html_variant)

lemma parse_path_result:
  assumes "parse_path env p = (t, Return r)"
  shows "case r of
           None \<Rightarrow> \<exists>m. last t = Log ERROR m
         | Some c \<Rightarrow>
             last t = Log INFO (u ''Finished parsing: '' @ basename p)
             \<and> (\<exists>t'. dispatch env (str_lower env (snd (splitext p))) p = (t', Return (Some c)))"
  using assms
  by (auto simp: parse_path_def Let_def
      split: if_splits prod.splits outcome.splits option.splits)

text \<open>
  Claim C4, as amended. A call that succeeds returns one variant, the one of the
  strategy its extension selects, and its last diagnostic is the \<open>Finished parsing\<close>
  record; a call that fails returns \<open>None\<close> and its last diagnostic is an error. The
  variant of a success may be empty: the dispatcher tests \<open>content is not None\<close>, so the
  empty string of an empty text file is a success.
\<close>

theorem success_has_one_variant:
  assumes "parse_document env v = (t, Return r)"
  shows "case r of
           None \<Rightarrow> \<exists>m. last t = Log ERROR m
         | Some c \<Rightarrow>
             (\<exists>p. v = PyStr p \<and> last t = Log INFO (u ''Finished parsing: '' @ basename p)
               \<and> (case c of
                     Text s \<Rightarrow>
                       str_lower env (snd (splitext p))
                         \<in> set [u ''.txt'', u ''.xml'', u ''.pdf'', u ''.docx'', u ''.html'',
                                 u ''.htm'']
                   | Table rows \<Rightarrow> str_lower env (snd (splitext p)) = u ''.csv''
                   | StructuredValue d \<Rightarrow> str_lower env (snd (splitext p)) = u ''.json'' \<and> d \<noteq> JNull
                   | SheetSet sheets \<Rightarrow>
                       str_lower env (snd (splitext p)) \<in> set [u ''.xlsx'', u ''.xls'']))"
proof (cases "\<exists>p. v = PyStr p \<and> p \<noteq> []")
  case True
  then obtain p where v: "v = PyStr p" and ne: "p \<noteq> []" by blast
  with assms have path: "parse_path env p = (t, Return r)" by simp
  show ?thesis
  proof (cases r)
    case None
    with parse_path_result [OF path] show ?thesis by simp
  next
    case (Some c)
    with parse_path_result [OF path] obtain t' where
      l: "last t = Log INFO (u ''Finished parsing: '' @ basename p)"
      and d: "dispatch env (str_lower env (snd (splitext p))) p = (t', Return (Some c))"
      by auto
    from dispatch_variant [OF d] l v Some show ?thesis
      by (cases c) simp_all
  qed
next
  case False
  then have "parse_document env v = ([Log ERROR (u ''Invalid filepath provided.'')], Return None)"
    by (cases v) auto
  with assms show ?thesis by auto
qed

lemma sample_txt_parsed:
  "parse_document sample_env (PyStr (u ''sample.txt'')) =
     ([Exists (u ''sample.txt''), IsFile (u ''sample.txt''),
       Log INFO (u ''Attempting to parse file: sample.txt (Detected type: .txt)''),
       Open (u ''sample.txt''),
       Log INFO (u ''Successfully parsed TXT: sample.txt''),
       Log INFO (u ''Finished parsing: sample.txt'')],
      Return (Some (Text (u ''This is line one.'' @ [10] @ u ''This is line two.''))))"
proof -
  have ne: "u ''sample.txt'' \<noteq> []" by (simp add: u_eq_Nil_iff)
  have "dispatch sample_env (u ''.txt'') (u ''sample.txt'') =
          ([Open (u ''sample.txt''), Log INFO (u ''Successfully parsed TXT: sample.txt'')],
           Return (Some (Text (u ''This is line one.'' @ [10] @ u ''This is line two.''))))"
    by (simp add: dispatch_simps parse_txt_def parse_txt_try_def read_text_def sample_env_files)
       (simp add: u_def bytes_of_def basename_def rfind_def)
  from parse_document_regular [OF sample_env_files(1,2) ne extension_sample(1) this]
  show ?thesis
    by (simp add: basename_plain u_append [symmetric])
qed

theorem success_has_one_variant_witness:
  "parse_document sample_env (PyStr (u ''sample.txt'')) =
     ([Exists (u ''sample.txt''), IsFile (u ''sample.txt''),
       Log INFO (u ''Attempting to parse file: sample.txt (Detected type: .txt)''),
       Open (u ''sample.txt''),
       Log INFO (u ''Successfully parsed TXT: sample.txt''),
       Log INFO (u ''Finished parsing: sample.txt'')],
      Return (Some (Text (u ''This is line one.'' @ [10] @ u ''This is line two.''))))
   \<and> str_lower sample_env (snd (splitext (u ''sample.txt'')))
       \<in> set [u ''.txt'', u ''.xml'', u ''.pdf'', u ''.docx'', u ''.html'', u ''.htm'']"
  using success_has_one_variant [OF sample_txt_parsed] sample_txt_parsed
  by simp

text \<open>
  The claim as stated asks for a non-empty variant on every success. The empty text file
  of \<open>odd_env\<close> is parsed with success and yields the empty text.
\<close>

theorem empty_text_file_succeeds:
  "path_exists odd_env (u ''empty.txt'') \<and> path_isfile odd_env (u ''empty.txt'')
   \<and> parse_document odd_env (PyStr (u ''empty.txt'')) =
       ([Exists (u ''empty.txt''), IsFile (u ''empty.txt''),
         Log INFO (u ''Attempting to parse file: empty.txt (Detected type: .txt)''),
         Open (u ''empty.txt''),
         Log INFO (u ''Successfully parsed TXT: empty.txt''),
         Log INFO (u ''Finished parsing: empty.txt'')],
        Return (Some (Text [])))"
proof -
  have ne: "u ''empty.txt'' \<noteq> []" by (simp add: u_eq_Nil_iff)
  have "dispatch odd_env (u ''.txt'') (u ''empty.txt'') =
          ([Open (u ''empty.txt''), Log INFO (u ''Successfully parsed TXT: empty.txt'')],
           Return (Some (Text [])))"
    by (simp add: dispatch_simps parse_txt_def parse_txt_try_def read_text_def odd_env_files
          basename_plain u_append [symmetric])
  from parse_document_regular [OF odd_env_files(1,2) ne extension_odd(1) this]
  show ?thesis
    using odd_env_files(1,2) by (simp add: basename_plain u_append [symmetric])
qed

section \<open>The decoding fallback of the text strategy\<close>

lemma utf8_decode_Ignore_total: "errs = Ignore \<Longrightarrow> \<exists>s. utf8_decode errs bs = Some s"
  by (induction errs bs rule: utf8_decode.induct)
     (auto simp del: utf8_next.simps split: prod.splits option.splits)

lemma latin1_undecodable: "utf8_decode Strict [0x63, 0x61, 0x66, 0xE9] = None"
  by simp

lemma latin1_ignored: "utf8_decode Ignore [0x63, 0x61, 0x66, 0xE9] = Some (u ''caf'')"
  by (simp add: u_def)

text \<open>
  Claim C5, as amended. For a regular \<open>.txt\<close> file whose octets fail the strict
  \<open>utf-8\<close> decoding, \<open>parse_txt\<close> logs one warning and opens the file a second time,
  once, with \<open>sys.getdefaultencoding()\<close> and \<open>errors='ignore'\<close>: the octets that cannot
  be decoded are skipped, nothing is raised for them, and the call returns the text of
  what remains.
\<close>

theorem txt_fallback_drops_invalid_bytes:
  assumes "path_exists env p" and "path_isfile env p"
    and "str_lower env (snd (splitext p)) = u ''.txt''"
    and "open_file env p = Inr bs"
    and "utf8_decode Strict bs = None"
  shows "\<exists>s. utf8_decode Ignore bs = Some s
           \<and> parse_document env (PyStr p) =
               ([Exists p, IsFile p,
                 Log INFO (u ''Attempting to parse file: '' @ p @ u '' (Detected type: .txt)''),
                 Open p,
                 Log WARNING (u ''UTF-8 decoding failed for '' @ p
                              @ u ''. Trying system default encoding.''),
                 Open p,
                 Log INFO (u ''Successfully parsed TXT: '' @ basename p),
                 Log INFO (u ''Finished parsing: '' @ basename p)],
                Return (Some (Text (translate_newlines s))))"
proof -
  obtain s where s: "utf8_decode Ignore bs = Some s"
    using utf8_decode_Ignore_total [of Ignore bs] by auto
  have ne: "p \<noteq> []"
    using assms(3) by (auto simp: splitext_Nil str_lower_def u_eq_Nil_iff)
  have "dispatch env (u ''.txt'') p =
          ([Open p,
            Log WARNING (u ''UTF-8 decoding failed for '' @ p
                         @ u ''. Trying system default encoding.''),
            Open p,
            Log INFO (u ''Successfully parsed TXT: '' @ basename p)],
           Return (Some (Text (translate_newlines s))))"
    using assms(4,5) s
    by (simp add: dispatch_simps parse_txt_def parse_txt_try_def read_text_def
          sys_getdefaultencoding_def isinstance_def)
  from parse_document_regular [OF assms(1,2) ne assms(3) this] s
  show ?thesis by (simp add: u_append [symmetric])
qed

theorem txt_fallback_drops_invalid_bytes_witness:
  "path_exists odd_env (u ''latin1.txt'') \<and> path_isfile odd_env (u ''latin1.txt'')
   \<and> open_file odd_env (u ''latin1.txt'') = Inr [0x63, 0x61, 0x66, 0xE9]
   \<and> utf8_decode Strict [0x63, 0x61, 0x66, 0xE9] = None
   \<and> parse_document odd_env (PyStr (u ''latin1.txt'')) =
       ([Exists (u ''latin1.txt''), IsFile (u ''latin1.txt''),
         Log INFO (u ''Attempting to parse file: latin1.txt (Detected type: .txt)''),
         Open (u ''latin1.txt''),
         Log WARNING
           (u ''UTF-8 decoding failed for latin1.txt. Trying system default encoding.''),
         Open (u ''latin1.txt''),
         Log INFO (u ''Successfully parsed TXT: latin1.txt''),
         Log INFO (u ''Finished parsing: latin1.txt'')],
        Return (Some (Text (u ''caf''))))"
  using txt_fallback_drops_invalid_bytes
          [OF odd_env_files(4,5) extension_odd(2) odd_env_files(6) latin1_undecodable]
    odd_env_files(4,5,6) latin1_undecodable
  by (simp add: latin1_ignored basename_plain) (simp add: u_def)

text \<open>
  The claim as stated has the invalid octets replaced. The four octets
  \<open>63 61 66 E9\<close> come back as the three code points of \<open>caf\<close>: the octet \<open>E9\<close> is
  dropped, and no replacement character stands in its place.
\<close>

theorem txt_fallback_does_not_replace:
  "utf8_decode Strict [0x63, 0x61, 0x66, 0xE9] = None
   \<and> open_file odd_env (u ''latin1.txt'') = Inr [0x63, 0x61, 0x66, 0xE9]
   \<and> snd (parse_document odd_env (PyStr (u ''latin1.txt''))) = Return (Some (Text [0x63, 0x61, 0x66]))"
proof -
  have ne: "u ''latin1.txt'' \<noteq> []" by (simp add: u_eq_Nil_iff)
  have "dispatch odd_env (u ''.txt'') (u ''latin1.txt'') =
          ([Open (u ''latin1.txt''),
            Log WARNING (u ''UTF-8 decoding failed for '' @ u ''latin1.txt''
                         @ u ''. Trying system default encoding.''),
            Open (u ''latin1.txt''),
            Log INFO (u ''Successfully parsed TXT: '' @ u ''latin1.txt'')],
           Return (Some (Text [0x63, 0x61, 0x66])))"
    by (simp add: dispatch_simps parse_txt_def parse_txt_try_def read_text_def odd_env_files
          sys_getdefaultencoding_def isinstance_def basename_plain)
  from parse_document_regular [OF odd_env_files(4,5) ne extension_odd(2) this]
  show ?thesis
    using odd_env_files(6) by simp
qed

section \<open>An extension outside the table\<close>

text \<open>
  Claim C6, as amended. For an existing regular file whose lower-cased extension is none
  of the ten the dispatcher tests, the call returns \<open>None\<close> without opening the file,
  whatever it holds. The unsupported-format diagnostic is a warning; the dispatcher then
  logs its closing \<open>Failed to parse\<close> record, which is an error.
\<close>

theorem unsupported_format:
  assumes "path_exists env p" and "path_isfile env p" and "p \<noteq> []"
    and "extension = str_lower env (snd (splitext p))"
    and "extension \<notin> set [u ''.txt'', u ''.csv'', u ''.json'', u ''.xml'', u ''.pdf'', u ''.docx'',
                            u ''.xlsx'', u ''.xls'', u ''.html'', u ''.htm'']"
  shows "parse_document env (PyStr p) =
           ([Exists p, IsFile p,
             Log INFO (u ''Attempting to parse file: '' @ p @ u '' (Detected type: '' @ extension
                       @ u '')''),
             Log WARNING (u ''Unsupported file format '' @ [39] @ extension @ [39]
                          @ u '' for file: '' @ p),
             Log ERROR (u ''Failed to parse: '' @ basename p)],
            Return None)"
proof -
  have "dispatch env extension p =
          ([Log WARNING (u ''Unsupported file format '' @ [39] @ extension @ [39]
                         @ u '' for file: '' @ p)], Return None)"
    using assms(5) by (simp add: dispatch_def)
  from parse_document_regular [OF assms(1,2,3) assms(4) [symmetric] this]
  show ?thesis by simp
qed

theorem unsupported_format_witness:
  "path_exists odd_env (u ''data.xyz'') \<and> path_isfile odd_env (u ''data.xyz'')
   \<and> parse_document odd_env (PyStr (u ''data.xyz'')) =
       ([Exists (u ''data.xyz''), IsFile (u ''data.xyz''),
         Log INFO (u ''Attempting to parse file: data.xyz (Detected type: .xyz)''),
         Log WARNING (u ''Unsupported file format '' @ [39] @ u ''.xyz'' @ [39]
                      @ u '' for file: data.xyz''),
         Log ERROR (u ''Failed to parse: data.xyz'')],
        Return None)"
proof -
  have ne: "u ''data.xyz'' \<noteq> []" by (simp add: u_eq_Nil_iff)
  have un: "u ''.xyz'' \<notin> set [u ''.txt'', u ''.csv'', u ''.json'', u ''.xml'', u ''.pdf'', u ''.docx'',
                            u ''.xlsx'', u ''.xls'', u ''.html'', u ''.htm'']"
    by (simp add: u_eq_iff)
  show ?thesis
    using unsupported_format [OF odd_env_files(10,11) ne extension_odd(4) [symmetric] un]
      odd_env_files(10,11)
    by (simp add: basename_plain) (simp add: u_def)
qed

text \<open>
  The claim as stated has the outcome logged as a warning and not as an error. The trace
  of the call on \<open>data.xyz\<close> holds an error record.
\<close>

theorem unsupported_format_logs_error:
  "path_exists odd_env (u ''data.xyz'') \<and> path_isfile odd_env (u ''data.xyz'')
   \<and> str_lower odd_env (snd (splitext (u ''data.xyz''))) = u ''.xyz''
   \<and> Log ERROR (u ''Failed to parse: data.xyz'')
       \<in> set (fst (parse_document odd_env (PyStr (u ''data.xyz''))))"
proof -
  have ne: "u ''data.xyz'' \<noteq> []" by (simp add: u_eq_Nil_iff)
  have "dispatch odd_env (u ''.xyz'') (u ''data.xyz'') =
          ([Log WARNING (u ''Unsupported file format '' @ [39] @ u ''.xyz'' @ [39]
                         @ u '' for file: '' @ u ''data.xyz'')], Return None)"
    by (simp add: dispatch_def u_eq_iff)
  from parse_document_regular [OF odd_env_files(10,11) ne extension_odd(4) this]
  show ?thesis
    using odd_env_files(10,11) extension_odd(4) ne
    by (simp add: basename_plain) (simp add: u_def)
qed

section \<open>The delimited strategy\<close>

lemma csv_loop_rows: "csv_loop (map Row records) rows = Inr (rows @ records)"
  by (induction records arbitrary: rows) simp_all

lemma sample_csv_decoded:
  "utf8_decode Strict
     (bytes_of ''ColA,ColB'' @ [13, 10] @ bytes_of ''Data1,10'' @ [13, 10]
      @ bytes_of ''Data2,20'' @ [13, 10])
   = Some (u ''ColA,ColB'' @ [13, 10] @ u ''Data1,10'' @ [13, 10] @ u ''Data2,20'' @ [13, 10])"
  by (simp add: bytes_of_def u_def)

lemma sample_csv_records:
  "csv_reader sample_env txt
     = map Row [[u ''ColA'', u ''ColB''], [u ''Data1'', u ''10''], [u ''Data2'', u ''20'']]"
  by (simp add: sample_env_def)

text \<open>
  Claim C7. For a \<open>.csv\<close> file that decodes as \<open>utf-8\<close> and from which the reader
  yields \<open>N\<close> records without raising, the call returns a table of exactly those \<open>N\<close>
  rows in order, each a list of strings as the reader produced them; when every record
  has as many fields as the first, so has every row.
\<close>

theorem csv_one_row_per_record:
  assumes "path_exists env p" and "path_isfile env p"
    and "str_lower env (snd (splitext p)) = u ''.csv''"
    and "open_file env p = Inr bs"
    and "utf8_decode Strict bs = Some txt"
    and "csv_reader env txt = map Row records"
  shows "\<exists>rows. parse_document env (PyStr p) =
             ([Exists p, IsFile p,
               Log INFO (u ''Attempting to parse file: '' @ p @ u '' (Detected type: .csv)''),
               Open p,
               Log INFO (u ''Successfully parsed CSV: '' @ basename p @ u '' (''
                         @ str_nat (length records) @ u '' rows)''),
               Log INFO (u ''Finished parsing: '' @ basename p)],
              Return (Some (Table rows)))
           \<and> rows = records \<and> length rows = length records
           \<and> (list_all (\<lambda>record. length record = length (hd records)) records
                \<longrightarrow> list_all (\<lambda>row. length row = length (hd rows)) rows)"
proof -
  have ne: "p \<noteq> []"
    using assms(3) by (auto simp: splitext_Nil str_lower_def u_eq_Nil_iff)
  have "dispatch env (u ''.csv'') p =
          ([Open p,
            Log INFO (u ''Successfully parsed CSV: '' @ basename p @ u '' (''
                      @ str_nat (length records) @ u '' rows)'')],
           Return (Some (Table records)))"
    using assms(4,5,6)
    by (simp add: dispatch_simps parse_csv_def parse_csv_try_def read_text_def csv_loop_rows)
  from parse_document_regular [OF assms(1,2) ne assms(3) this]
  show ?thesis by (simp add: u_append [symmetric])
qed

theorem csv_one_row_per_record_witness:
  "path_exists sample_env (u ''sample.csv'') \<and> path_isfile sample_env (u ''sample.csv'')
   \<and> parse_document sample_env (PyStr (u ''sample.csv'')) =
       ([Exists (u ''sample.csv''), IsFile (u ''sample.csv''),
         Log INFO (u ''Attempting to parse file: sample.csv (Detected type: .csv)''),
         Open (u ''sample.csv''),
         Log INFO (u ''Successfully parsed CSV: sample.csv (3 rows)''),
         Log INFO (u ''Finished parsing: sample.csv'')],
        Return (Some (Table [[u ''ColA'', u ''ColB''], [u ''Data1'', u ''10''],
                             [u ''Data2'', u ''20'']])))"
  using csv_one_row_per_record
          [OF sample_env_files(4,5) extension_sample(2) sample_env_files(6) sample_csv_decoded
              sample_csv_records]
    sample_env_files(4,5)
  by (simp add: basename_plain str_nat.simps) (simp add: u_def)

text \<open>
  Claim C9. The delimited strategy has no second attempt: for an existing regular
  \<open>.csv\<close> file whose octets are not valid \<open>utf-8\<close> the call returns \<open>None\<close> after
  opening the file once, whereas \<open>parse_txt\<close> on the same file returns a text.
\<close>

theorem csv_no_encoding_fallback:
  assumes "path_exists env p" and "path_isfile env p"
    and "str_lower env (snd (splitext p)) = u ''.csv''"
    and "open_file env p = Inr bs"
    and "utf8_decode Strict bs = None"
  shows "(\<exists>t. parse_document env (PyStr p) = (t, Return None) \<and> count_list t (Open p) = 1)
         \<and> (\<exists>t s. parse_txt env p = (t, Return (Some (Text s))))"
proof -
  have ne: "p \<noteq> []"
    using assms(3) by (auto simp: splitext_Nil str_lower_def u_eq_Nil_iff)
  have "dispatch env (u ''.csv'') p =
          ([Open p,
            Log ERROR (u ''Unexpected error parsing CSV file '' @ p @ u '': ''
                       @ codec_error_str env bs)],
           Return None)"
    using assms(4,5)
    by (simp add: dispatch_simps parse_csv_def parse_csv_try_def read_text_def isinstance_def)
  from parse_document_regular [OF assms(1,2) ne assms(3) this]
  have csv: "\<exists>t. parse_document env (PyStr p) = (t, Return None) \<and> count_list t (Open p) = 1"
    by simp
  obtain s where s: "utf8_decode Ignore bs = Some s"
    using utf8_decode_Ignore_total [of Ignore bs] by auto
  have "\<exists>t s. parse_txt env p = (t, Return (Some (Text s)))"
    using assms(4,5) s
    by (simp add: parse_txt_def parse_txt_try_def read_text_def
          sys_getdefaultencoding_def isinstance_def)
  with csv show ?thesis by simp
qed

theorem csv_no_encoding_fallback_witness:
  "path_exists odd_env (u ''latin1.csv'') \<and> path_isfile odd_env (u ''latin1.csv'')
   \<and> open_file odd_env (u ''latin1.csv'') = Inr [0x63, 0x61, 0x66, 0xE9]
   \<and> utf8_decode Strict [0x63, 0x61, 0x66, 0xE9] = None
   \<and> (\<exists>t. parse_document odd_env (PyStr (u ''latin1.csv'')) = (t, Return None)
          \<and> count_list t (Open (u ''latin1.csv'')) = 1)"
  using csv_no_encoding_fallback
          [OF odd_env_files(7,8) extension_odd(3) odd_env_files(9) latin1_undecodable]
    odd_env_files(7,8,9) latin1_undecodable
  by simp

section \<open>The markup strategy\<close>

text \<open>
  What the strategy computes: the \<open>text\<close> of every element in document order, each
  stripped, the empty ones left out, the rest joined by one space.
\<close>

lemma text_parts_filter:
  "text_parts root =
     filter (\<lambda>s. s \<noteq> [])
       (concat (map (\<lambda>elem. case elem_text elem of None \<Rightarrow> [] | Some s \<Rightarrow> [s]) (iter root)))"
proof -
  have "concat (map (\<lambda>elem. case elem_text elem of None \<Rightarrow> []
                              | Some s \<Rightarrow> if s \<noteq> [] then [s] else []) es) =
        filter (\<lambda>s. s \<noteq> [])
          (concat (map (\<lambda>elem. case elem_text elem of None \<Rightarrow> [] | Some s \<Rightarrow> [s]) es))"
    for es :: "element list"
    by (induction es) (simp_all split: option.split)
  then show ?thesis by (simp add: text_parts_def)
qed

lemma str_strip_Nil: "str_strip [] = []"
  by (simp add: str_strip_def)

lemma xml_text_content_fragments:
  "xml_text_content root =
     str_join (u '' '')
       (filter (\<lambda>fragment. fragment \<noteq> [])
          (map str_strip
             (concat (map (\<lambda>elem. case elem_text elem of None \<Rightarrow> [] | Some s \<Rightarrow> [s])
                        (iter root)))))"
proof -
  have "map str_strip (filter (\<lambda>part. str_strip part \<noteq> []) (filter (\<lambda>s. s \<noteq> []) xs)) =
        filter (\<lambda>fragment. fragment \<noteq> []) (map str_strip xs)" for xs
    by (induction xs) (auto simp: str_strip_Nil)
  then show ?thesis
    by (simp add: xml_text_content_def text_parts_filter)
qed

lemma xml_text_content_samples:
  "xml_text_content sample_xml = u ''1 2''"
  "xml_text_content mixed_xml = u ''x y''"
  by (simp_all add: xml_text_content_def text_parts_def sample_xml_def mixed_xml_def
        str_strip_def isspace_def u_def)

text \<open>
  Claim C8. The strategy collects \<open>elem.text\<close> of every element, the text between
  its start tag and its first child; it never reads \<open>elem.tail\<close>, the text after an
  element's end tag. On the driver's sample no text follows an end tag and the result is
  \<open>1 2\<close>. On \<open><a>x<b>y</b>z</a>\<close> the text \<open>z\<close> is lost: the call returns \<open>x y\<close>,
  not all the text of the document, which is what the docstring of \<open>parse_xml\<close>
  promises.
\<close>

theorem xml_tail_text_is_dropped:
  "path_exists xml_env (u ''mixed.xml'') \<and> path_isfile xml_env (u ''mixed.xml'')
   \<and> open_file xml_env (u ''mixed.xml'') = Inr (bytes_of ''<a>x<b>y</b>z</a>'')
   \<and> XMLParser xml_env (bytes_of ''<a>x<b>y</b>z</a>'') = Inr mixed_xml
   \<and> parse_document xml_env (PyStr (u ''mixed.xml'')) =
       ([Exists (u ''mixed.xml''), IsFile (u ''mixed.xml''),
         Log INFO (u ''Attempting to parse file: mixed.xml (Detected type: .xml)''),
         Open (u ''mixed.xml''),
         Log INFO (u ''Successfully parsed XML and extracted text: mixed.xml''),
         Log INFO (u ''Finished parsing: mixed.xml'')],
        Return (Some (Text (u ''x y''))))"
proof -
  have f: "path_exists xml_env (u ''mixed.xml'')" "path_isfile xml_env (u ''mixed.xml'')"
    "open_file xml_env (u ''mixed.xml'') = Inr (bytes_of ''<a>x<b>y</b>z</a>'')"
    "XMLParser xml_env (bytes_of ''<a>x<b>y</b>z</a>'') = Inr mixed_xml"
    by (simp_all add: xml_env_def with_file_def sample_env_def base_env_def u_eq_iff)
  have ne: "u ''mixed.xml'' \<noteq> []" by (simp add: u_eq_Nil_iff)
  have ext: "str_lower xml_env (snd (splitext (u ''mixed.xml''))) = u ''.xml''"
    by (simp add: splitext_def rfind_def u_def str_lower_def chr_lower_def)
  have b: "basename (u ''mixed.xml'') = u ''mixed.xml''"
    by (simp add: basename_def rfind_def u_def)
  have "dispatch xml_env (u ''.xml'') (u ''mixed.xml'') =
          ([Open (u ''mixed.xml''),
            Log INFO (u ''Successfully parsed XML and extracted text: '' @ u ''mixed.xml'')],
           Return (Some (Text (u ''x y''))))"
    by (simp add: dispatch_simps parse_xml_def parse_xml_try_def f xml_text_content_samples b)
  from parse_document_regular [OF f(1,2) ne ext this]
  show ?thesis
    using f by (simp add: b) (simp add: u_def)
qed

section \<open>An argument that is not a non-empty string\<close>

text \<open>
  Claim C10. For an argument that is not a \<open>str\<close>, or is the empty string,
  \<open>parse_document\<close> returns \<open>None\<close> after logging one error; the trace holds no access
  to the file system, and nothing is raised.
\<close>

theorem invalid_argument_fails_untouched:
  "(\<forall>s. v \<noteq> PyStr s) \<or> v = PyStr [] \<Longrightarrow>
   parse_document env v = ([Log ERROR (u ''Invalid filepath provided.'')], Return None)"
  by (cases v) auto

theorem invalid_argument_fails_untouched_witness:
  "parse_document base_env PyNone = ([Log ERROR (u ''Invalid filepath provided.'')], Return None)
   \<and> parse_document base_env (PyInt 7) = ([Log ERROR (u ''Invalid filepath provided.'')], Return None)
   \<and> parse_document base_env (PyStr []) = ([Log ERROR (u ''Invalid filepath provided.'')], Return None)"
  using invalid_argument_fails_untouched [of PyNone base_env]
    invalid_argument_fails_untouched [of "PyInt 7" base_env]
    invalid_argument_fails_untouched [of "PyStr []" base_env]
  by simp

end
